theory Spec2Isabelle
  imports Complex_Main
begin

section \<open>Exceptions\<close>

text \<open>
  The exception classes that the modelled functions raise or catch. An exception value
  is identified with its class; messages are dropped. \<open>base\<close> is the direct superclass,
  \<open>mro\<close> the chain up to \<open>BaseException\<close>, and \<open>is_a e c\<close> is what an
  \<^verbatim>\<open>except c\<close> clause tests. \<open>ZroError\<close> (np_services.zro) and \<open>TestError\<close>
  (np_services.protocols) are ordinary subclasses of \<open>Exception\<close>.
\<close>

datatype exn =
    BaseException | KeyboardInterrupt | Exception
  | AssertionError | AttributeError | TypeError | ValueError | KeyError | IndexError
  | OSError | FileNotFoundError | ConnectionError
  | ZroError | TestError

fun base :: "exn \<Rightarrow> exn option" where
  "base BaseException = None"
| "base KeyboardInterrupt = Some BaseException"
| "base Exception = Some BaseException"
| "base FileNotFoundError = Some OSError"
| "base ConnectionError = Some OSError"
| "base e = Some Exception"

definition mro :: "exn \<Rightarrow> exn list" where
  "mro e = e # (case base e of None \<Rightarrow> [] | Some b \<Rightarrow>
             b # (case base b of None \<Rightarrow> [] | Some c \<Rightarrow>
             c # (case base c of None \<Rightarrow> [] | Some d \<Rightarrow> [d])))"

definition is_a :: "exn \<Rightarrow> exn \<Rightarrow> bool" where
  "is_a e c = (c \<in> set (mro e))"

section \<open>The world outside the process\<close>

type_synonym path = string

text \<open>
  A directory entry as \<^verbatim>\<open>Path.glob\<close> yields it, together with the fields of its
  \<^verbatim>\<open>stat()\<close> that the code reads. Times are seconds since the epoch, as Python floats;
  they are modelled as reals (comparison and truncation of a float are exact).
\<close>

record file_entry =
  fname :: path
  st_ctime :: real
  st_mtime :: real
  st_size :: nat

text \<open>What a device answers to \<^verbatim>\<open>get_state()\<close>: a tuple of strings, or the older mapping.\<close>

datatype dev_state = Tuple "string list" | Mapping "(string \<times> string) list"

text \<open>One camera of MVR's \<^verbatim>\<open>get_camera_status\<close> reply.\<close>

record camera =
  is_open :: bool
  is_streaming :: bool
  is_recording :: bool

text \<open>The commands a proxy class sends to its device.\<close>

datatype command =
    Start | Stop | Start_script | Start_session
  | Start_record | Stop_record | Take_snapshot

datatype level = Debug | Info | Warning | Error

text \<open>
  The environment of one proxy class. It is fixed during a run and holds
  \<^item> the class constants that differ between the proxy classes;
  \<^item> the merged \<^verbatim>\<open>CONFIG\<close> entry of the class (a key that is absent is \<open>None\<close>);
  \<^item> the file system, as a function of the time of the call;
  \<^item> the device: its \<open>n\<close>-th interaction with the process gets the \<open>n\<close>-th answer, so
    two probes in a row may see different states.
\<close>

record env =
  isinstance_Startable :: bool
  started_state :: "string list option"
  raw_suffix :: "string option"
  camstim_config :: bool
  cfg_host :: "string option"
  cfg_port :: "int option"
  cfg_timeout :: "real option"
  cfg_serialization :: "string option"
  cfg_pretest_duration_sec :: "real option"
  cfg_gb_per_hr :: "real option"
  cfg_min_rec_hr :: "real option"
  cfg_data :: "string option"
  path_parts :: "path \<Rightarrow> string list"
  path_exists :: "real \<Rightarrow> path \<Rightarrow> exn option"
  path_mkdir :: "real \<Rightarrow> path \<Rightarrow> exn option"
  path_is_dir :: "real \<Rightarrow> path \<Rightarrow> bool"
  path_parent :: "path \<Rightarrow> path"
  path_glob :: "real \<Rightarrow> path \<Rightarrow> string \<Rightarrow> file_entry list"
  path_size :: "real \<Rightarrow> path \<Rightarrow> exn + nat"
  unc_to_local :: "path \<Rightarrow> exn + path"
  disk_usage_free :: "real \<Rightarrow> path \<Rightarrow> exn + nat"
  is_online :: "nat \<Rightarrow> bool"
  zro_get_state :: "nat \<Rightarrow> exn + dev_state"
  zro_command :: "nat \<Rightarrow> command \<Rightarrow> exn option"
  mvr_connected :: "nat \<Rightarrow> bool"
  mvr_camera_status :: "nat \<Rightarrow> exn + camera list"
  mvr_read :: "nat \<Rightarrow> string list"

text \<open>
  The mutable state: the clock, the number of interactions with the device so far, what
  was sent and logged, and the class attributes the code assigns. An attribute that
  \<^verbatim>\<open>hasattr\<close> would not find is \<open>None\<close> in the outer option; \<open>data_root\<close> and
  \<open>data_files\<close> always exist (class default \<^verbatim>\<open>None\<close>) and hold an optional value.
\<close>

record state =
  now :: real
  tick :: nat
  sent :: "command list"
  logged :: "(level \<times> string) list"
  proxy :: bool
  host :: "string option"
  port :: "int option"
  timeout :: "real option"
  serialization :: "string option"
  pretest_duration_sec :: "real option"
  gb_per_hr :: "real option"
  min_rec_hr :: "real option"
  data_root :: "path option"
  data_files :: "file_entry list option"
  exc :: "exn option"
  latest_start :: "real option"

type_synonym 'a result = "(exn + 'a) \<times> state"

definition logger :: "level \<Rightarrow> string \<Rightarrow> state \<Rightarrow> state" where
  "logger l msg st = st\<lparr>logged := logged st @ [(l, msg)]\<rparr>"

text \<open>
  \<^verbatim>\<open>time.sleep(d)\<close> moves the clock by \<open>d\<close>. It is the only thing that does: a probe, a
  command or a file-system call takes no time.
\<close>

definition sleep :: "real \<Rightarrow> state \<Rightarrow> state" where
  "sleep d st = st\<lparr>now := now st + d\<rparr>"

section \<open>utils.py\<close>

subsection \<open>stop_on_error\<close>


subsection \<open>suppress\<close>

text \<open>
  \<^verbatim>\<open>
  @contextlib.contextmanager
  def suppress(*exceptions: Type[BaseException]):
      try:
          yield
      except exceptions or Exception as exc:
          with contextlib.suppress(Exception):
              logger.error(
                  "Error suppressed: continuing despite raised exception", exc_info=exc
              )
      finally:
          return
  \<close>
  \<open>try_except\<close> is the outcome of the \<^verbatim>\<open>try\<close> with its \<^verbatim>\<open>except\<close> clause;
  \<open>finally_return\<close> is the \<^verbatim>\<open>finally: return\<close>, which ends the generator normally
  whatever was in flight.
\<close>

definition suppress_try_except :: "exn list \<Rightarrow> (state \<Rightarrow> unit result) \<Rightarrow> state \<Rightarrow> unit result" where
  "suppress_try_except exceptions body st =
     (case body st of
        (Inr u, st1) \<Rightarrow> (Inr (), st1)
      | (Inl e, st1) \<Rightarrow>
          if list_ex (is_a e) (if exceptions = [] then [Exception] else exceptions)
          then (Inr (), logger Error ''Error suppressed: continuing despite raised exception'' st1)
          else (Inl e, st1))"

definition finally_return :: "unit result \<Rightarrow> unit result" where
  "finally_return r = (Inr (), snd r)"

definition suppress :: "exn list \<Rightarrow> (state \<Rightarrow> unit result) \<Rightarrow> state \<Rightarrow> unit result" where
  "suppress exceptions body st = finally_return (suppress_try_except exceptions body st)"

subsection \<open>free_gb\<close>

text \<open>
  Python's \<^verbatim>\<open>round(x, 1)\<close> on a float rounds to the nearest tenth, an exact tie to the
  even neighbour. \<open>py_int\<close> is \<^verbatim>\<open>int(x)\<close>: truncation towards zero.
\<close>

definition round_half_even :: "real \<Rightarrow> int" where
  "round_half_even x =
     (let f = \<lfloor>x\<rfloor>; d = x - of_int f in
      if d < 1 / 2 then f else if 1 / 2 < d then f + 1 else if even f then f else f + 1)"

definition py_round1 :: "real \<Rightarrow> real" where
  "py_round1 x = of_int (round_half_even (x * 10)) / 10"

definition py_int :: "real \<Rightarrow> int" where
  "py_int x = (if 0 \<le> x then \<lfloor>x\<rfloor> else \<lceil>x\<rceil>)"

text \<open>
  \<^verbatim>\<open>
  def free_gb(path: str | bytes | os.PathLike) -> float:
      "Return free space at `path`, to .1 GB. Raises FileNotFoundError if `path` not accessible."
      path = pathlib.Path(path)
      path = unc_to_local(path)
      return round(shutil.disk_usage(path).free / 1e9, 1)
  \<close>
  \<^verbatim>\<open>pathlib.Path(None)\<close> raises \<open>TypeError\<close>. \<open>unc_to_local\<close> depends on the platform and on
  the environment variables only; its value is read from the environment.
\<close>

definition free_gb :: "env \<Rightarrow> state \<Rightarrow> path option \<Rightarrow> exn + real" where
  "free_gb E st p =
     (case p of
        None \<Rightarrow> Inl TypeError
      | Some q \<Rightarrow>
          (case unc_to_local E q of
             Inl e \<Rightarrow> Inl e
           | Inr q' \<Rightarrow>
               (case disk_usage_free E (now st) q' of
                  Inl e \<Rightarrow> Inl e
                | Inr free \<Rightarrow> Inr (py_round1 (real free / 1000000000)))))"

subsection \<open>get_files_created_between\<close>

text \<open>
  \<^verbatim>\<open>
  def get_files_created_between(path, glob="*", start=0, end=None) -> list[pathlib.Path]:
      path = pathlib.Path(path)
      if not path.is_dir():
          path = path.parent
      if not end:
          end = time.time()
      start = start.timestamp() if isinstance(start, datetime.datetime) else start
      end = end.timestamp() if isinstance(end, datetime.datetime) else end
      ctime = lambda x: x.stat().st_ctime
      files = (file for file in path.glob(glob) if int(start) <= ctime(file) <= end)
      return sorted(files, key=ctime)
  \<close>
  A time argument is a number or a \<^verbatim>\<open>datetime\<close> (given by its \<^verbatim>\<open>timestamp()\<close>). A
  \<^verbatim>\<open>datetime\<close> is always true; the number \<open>0\<close> and \<^verbatim>\<open>None\<close> are false.
\<close>

datatype timearg = Num real | Datetime real

fun timestamp :: "timearg \<Rightarrow> real" where
  "timestamp (Num x) = x"
| "timestamp (Datetime t) = t"

fun truthy :: "timearg option \<Rightarrow> bool" where
  "truthy None = False"
| "truthy (Some (Num x)) = (x \<noteq> 0)"
| "truthy (Some (Datetime t)) = True"

definition window_end :: "state \<Rightarrow> timearg option \<Rightarrow> real" where
  "window_end st end_arg = (if truthy end_arg then timestamp (the end_arg) else now st)"

definition search_dir :: "env \<Rightarrow> state \<Rightarrow> path \<Rightarrow> path" where
  "search_dir E st p = (if path_is_dir E (now st) p then p else path_parent E p)"

definition get_files_created_between ::
  "env \<Rightarrow> state \<Rightarrow> path \<Rightarrow> string \<Rightarrow> timearg \<Rightarrow> timearg option \<Rightarrow> file_entry list" where
  "get_files_created_between E st p glob start_arg end_arg =
     sort_key st_ctime
       (filter (\<lambda>f. of_int (py_int (timestamp start_arg)) \<le> st_ctime f
                     \<and> st_ctime f \<le> window_end st end_arg)
          (path_glob E (now st) (search_dir E st p) glob))"

subsection \<open>is_file_growing\<close>

text \<open>
  \<^verbatim>\<open>
  def is_file_growing(path: str | bytes | os.PathLike) -> bool:
      path = pathlib.Path(path)
      size_0 = path.stat().st_size
      # for sync: file is appended periodically in chunks that scale non-linearly with size
      if ".sync" == path.suffix:
          time.sleep(2 * math.log10(size_0))
      else:
          time.sleep(0.5 * math.log10(size_0))
      if path.stat().st_size == size_0:
          return False
      return True
  \<close>
  \<^verbatim>\<open>math.log10(0)\<close> raises \<open>ValueError\<close> (math domain error). \<open>suffix\<close> is
  \<^verbatim>\<open>Path.suffix\<close>: the last dot of the final component and what follows it, if that dot
  is neither the first nor the last character of the component.
\<close>

definition final_component :: "path \<Rightarrow> string" where
  "final_component p = rev (takeWhile (\<lambda>c. c \<noteq> CHR ''/'') (rev p))"

definition suffix :: "path \<Rightarrow> string" where
  "suffix p =
     (let name = final_component p;
          ext = rev (takeWhile (\<lambda>c. c \<noteq> CHR ''.'') (rev name))
      in if CHR ''.'' \<in> set name \<and> ext \<noteq> [] \<and> length ext + 1 < length name
         then CHR ''.'' # ext else [])"

definition is_file_growing :: "env \<Rightarrow> state \<Rightarrow> path \<Rightarrow> bool result" where
  "is_file_growing E st p =
     (case path_size E (now st) p of
        Inl e \<Rightarrow> (Inl e, st)
      | Inr size_0 \<Rightarrow>
          if size_0 = 0 then (Inl ValueError, st)
          else
            (let st1 = sleep ((if suffix p = ''.sync'' then 2 else 1 / 2) * log 10 (real size_0)) st
             in case path_size E (now st1) p of
                  Inl e \<Rightarrow> (Inl e, st1)
                | Inr size_1 \<Rightarrow> (Inr (size_1 \<noteq> size_0), st1)))"

section \<open>proxies.py: Proxy\<close>

text \<open>
  Sequencing of two steps: an exception of the first step ends the computation, with the
  state as it was when the exception was raised.
\<close>

definition andthen :: "'a result \<Rightarrow> ('a \<Rightarrow> state \<Rightarrow> 'b result) \<Rightarrow> 'b result" where
  "andthen r f = (case r of (Inl e, st) \<Rightarrow> (Inl e, st) | (Inr a, st) \<Rightarrow> f a st)"

subsection \<open>ensure_config\<close>

text \<open>
  \<^verbatim>\<open>
  def ensure_config(cls) -> None:
      config = CONFIG.get(__class__.__name__, {})
      config.update(**CONFIG.get(cls.__name__, {}))
      if not hasattr(cls, "host"):
          cls.host = config["host"]
      if not hasattr(cls, "port"):
          cls.port = int(config["port"])
      if not hasattr(cls, "timeout"):
          cls.timeout = float(config.get("timeout", 10.0))
      if not hasattr(cls, "serialization"):
          cls.serialization = config.get("serialization", "json")
      if not hasattr(cls, "pretest_duration_sec"):
          cls.pretest_duration_sec = config.get("pretest_duration_sec", 5)
      if not hasattr(cls, "gb_per_hr"):
          cls.gb_per_hr = config.get("gb_per_hr", 2.0)
      if not hasattr(cls, "min_rec_hr"):
          cls.min_rec_hr = config.get("min_rec_hr", 3.0)
      if not cls.data_root or cls.host not in cls.data_root.parts:
          relative_path = config.get("data", None)
          if relative_path:
              root = pathlib.Path(f"//{cls.host}/{relative_path}")
              try:
                  _ = root.exists()
              except OSError as exc:
                  cls.exc = exc
                  logger.exception("Error accessing %s data path: %s", cls.__name__, root)
                  raise FileNotFoundError(
                      f"{cls.__name__} data path is not accessible: {root}") from exc
              else:
                  cls.data_root = root
      if hasattr(cls, "data_root"):
          cls.data_root.mkdir(parents=True, exist_ok=True)
  \<close>
  \<open>Proxy.ensure_config\<close> and \<open>Sync.ensure_config\<close> have this body. In
  \<open>Camstim.ensure_config\<close> the last test is
  \<^verbatim>\<open>hasattr(cls, "data_root") and cls.data_root is not None\<close>; \<open>camstim_config\<close> says
  which of the two the class has. \<^verbatim>\<open>hasattr(cls, "data_root")\<close> is always true, so without
  that test a \<open>data_root\<close> of \<^verbatim>\<open>None\<close> fails with \<open>AttributeError\<close>.
\<close>

definition config_required :: "env \<Rightarrow> state \<Rightarrow> unit result" where
  "config_required E st =
     (if host st = None \<and> cfg_host E = None then (Inl KeyError, st)
      else
        (let st1 = (if host st = None then st\<lparr>host := cfg_host E\<rparr> else st) in
         if port st1 = None \<and> cfg_port E = None then (Inl KeyError, st1)
         else (Inr (), (if port st1 = None then st1\<lparr>port := cfg_port E\<rparr> else st1))))"

definition default_to :: "'a option \<Rightarrow> 'a option \<Rightarrow> 'a \<Rightarrow> 'a option" where
  "default_to attr cfg d = (case attr of Some v \<Rightarrow> Some v | None \<Rightarrow>
                              (case cfg of Some v \<Rightarrow> Some v | None \<Rightarrow> Some d))"

definition config_defaults :: "env \<Rightarrow> state \<Rightarrow> state" where
  "config_defaults E st =
     st\<lparr>timeout := default_to (timeout st) (cfg_timeout E) 10,
        serialization := default_to (serialization st) (cfg_serialization E) ''json'',
        pretest_duration_sec := default_to (pretest_duration_sec st) (cfg_pretest_duration_sec E) 5,
        gb_per_hr := default_to (gb_per_hr st) (cfg_gb_per_hr E) 2,
        min_rec_hr := default_to (min_rec_hr st) (cfg_min_rec_hr E) 3\<rparr>"

definition config_data_root :: "env \<Rightarrow> state \<Rightarrow> unit result" where
  "config_data_root E st =
     (if (case data_root st of None \<Rightarrow> True
          | Some r \<Rightarrow> the (host st) \<notin> set (path_parts E r))
      then
        (case cfg_data E of
           None \<Rightarrow> (Inr (), st)
         | Some relative_path \<Rightarrow>
             if relative_path = [] then (Inr (), st)
             else
               (let droot = ''//'' @ the (host st) @ ''/'' @ relative_path in
                case path_exists E (now st) droot of
                  None \<Rightarrow> (Inr (), st\<lparr>data_root := Some droot\<rparr>)
                | Some e \<Rightarrow>
                    if is_a e OSError
                    then (Inl FileNotFoundError,
                          logger Error ''Error accessing data path'' (st\<lparr>exc := Some e\<rparr>))
                    else (Inl e, st)))
      else (Inr (), st))"

definition config_mkdir :: "env \<Rightarrow> state \<Rightarrow> unit result" where
  "config_mkdir E st =
     (case data_root st of
        None \<Rightarrow> (if camstim_config E then (Inr (), st) else (Inl AttributeError, st))
      | Some r \<Rightarrow>
          (case path_mkdir E (now st) r of
             None \<Rightarrow> (Inr (), st)
           | Some e \<Rightarrow> (Inl e, st)))"

definition ensure_config :: "env \<Rightarrow> state \<Rightarrow> unit result" where
  "ensure_config E st =
     andthen (config_required E st) (\<lambda>u st1.
     andthen (config_data_root E (config_defaults E st1)) (\<lambda>u st2.
     config_mkdir E st2))"

subsection \<open>get_proxy and get_state\<close>

text \<open>
  \<^verbatim>\<open>
  def get_proxy(cls) -> zro.DeviceProxy:
      with contextlib.suppress(AttributeError):
          return cls.proxy
      cls.ensure_config()
      logger.debug("Creating %s proxy to %s:%s", cls.__name__, cls.host, cls.port)
      cls.proxy = zro.DeviceProxy(cls.host, cls.port, cls.timeout, cls.serialization)
      return cls.get_proxy()

  def get_state(cls) -> ProxyState | dict:
      return cls.get_proxy().get_state()
  \<close>
  \<open>MVR.get_proxy\<close> has the same shape with \<^verbatim>\<open>mvr.MVRConnector\<close>. Creating the proxy
  object is taken to succeed. \<open>command\<close> is a call of a method of the proxy that commands
  the device: it is recorded in \<open>sent\<close> when it is issued, whether or not the call then
  raises.
\<close>

definition get_proxy :: "env \<Rightarrow> state \<Rightarrow> unit result" where
  "get_proxy E st =
     (if proxy st then (Inr (), st)
      else andthen (ensure_config E st) (\<lambda>u st1.
             (Inr (), (logger Debug ''Creating proxy'' st1)\<lparr>proxy := True\<rparr>)))"

definition Proxy_get_state :: "env \<Rightarrow> state \<Rightarrow> dev_state result" where
  "Proxy_get_state E st =
     andthen (get_proxy E st) (\<lambda>u st1.
       (zro_get_state E (tick st1), st1\<lparr>tick := tick st1 + 1\<rparr>))"

definition command :: "env \<Rightarrow> command \<Rightarrow> state \<Rightarrow> unit result" where
  "command E c st =
     andthen (get_proxy E st) (\<lambda>u st1.
       (case zro_command E (tick st1) c of
          None \<Rightarrow> (Inr (), st1\<lparr>tick := tick st1 + 1, sent := sent st1 @ [c]\<rparr>)
        | Some e \<Rightarrow> (Inl e, st1\<lparr>tick := tick st1 + 1, sent := sent st1 @ [c]\<rparr>)))"

subsection \<open>get_latest_data\<close>

text \<open>
  \<^verbatim>\<open>
  def get_latest_data(cls, glob=None, subfolders="") -> list[pathlib.Path] | None:
      cls.ensure_config()
      if not cls.data_root:
          return None
      if subfolders == "/":  # can alter path to drive root
          subfolders = ""
      if not glob:
          glob = f"*{cls.raw_suffix}" if hasattr(cls, "raw_suffix") else "*"
      if not hasattr(cls, "latest_start"):
          return [
              max(
                  utils.get_files_created_between(cls.data_root / subfolders, glob),
                  key=lambda x: x.stat().st_mtime,
              )
          ]
      return utils.get_files_created_between(
          cls.data_root / subfolders, glob, cls.latest_start
      )
  \<close>
  \<^verbatim>\<open>max\<close> raises \<open>ValueError\<close> on an empty sequence and returns the first of several
  maximal elements. The class \<open>Proxy\<close> declares \<^verbatim>\<open>latest_start: ClassVar[int] = 0\<close>.
\<close>

definition joinpath :: "path \<Rightarrow> string \<Rightarrow> path" where
  "joinpath p s = (if s = [] then p else if hd s = CHR ''/'' then s else p @ ''/'' @ s)"

definition max_by_mtime :: "file_entry list \<Rightarrow> exn + file_entry" where
  "max_by_mtime fs =
     (case fs of
        [] \<Rightarrow> Inl ValueError
      | f # rest \<Rightarrow> Inr (foldl (\<lambda>best g. if st_mtime best < st_mtime g then g else best) f rest))"

definition default_glob :: "env \<Rightarrow> string option \<Rightarrow> string" where
  "default_glob E glob =
     (if glob = None \<or> glob = Some []
      then (case raw_suffix E of Some sfx \<Rightarrow> ''*'' @ sfx | None \<Rightarrow> ''*'')
      else the glob)"

definition get_latest_data ::
  "env \<Rightarrow> state \<Rightarrow> string option \<Rightarrow> string \<Rightarrow> file_entry list option result" where
  "get_latest_data E st glob subfolders =
     andthen (ensure_config E st) (\<lambda>u st1.
       (case data_root st1 of
          None \<Rightarrow> (Inr None, st1)
        | Some droot \<Rightarrow>
            (let sub = (if subfolders = ''/'' then [] else subfolders);
                 g = default_glob E glob
             in case latest_start st1 of
                  None \<Rightarrow>
                    (case max_by_mtime
                            (get_files_created_between E st1 (joinpath droot sub) g (Num 0) None) of
                       Inl e \<Rightarrow> (Inl e, st1)
                     | Inr f \<Rightarrow> (Inr (Some [f]), st1))
                | Some t \<Rightarrow>
                    (Inr (Some (get_files_created_between E st1 (joinpath droot sub) g (Num t) None)),
                     st1))))"

subsection \<open>get_required_disk_gb and is_disk_space_ok\<close>

text \<open>
  \<^verbatim>\<open>
  def get_required_disk_gb(cls) -> float:
      "Return the minimum disk space required prior to start (to .1 GB). Returns `0.0` if service generates no data."
      cls.ensure_config()
      if not isinstance(cls, Startable):
          return 0.0
      return round(cls.min_rec_hr * cls.gb_per_hr, 1)

  def is_disk_space_ok(cls) -> bool:
      required = cls.get_required_disk_gb()
      if required == 0.0:
          return True
      try:
          free = utils.free_gb(cls.data_root)
      except FileNotFoundError as exc:
          cls.exc = exc
          logger.exception(f"{cls.__name__} data path not accessible: {cls.data_root}")
          return False
      else:
          logger.debug("%s free disk space on %s: %s GB", cls.__name__, cls.data_root.drive, free)
          return free > required
  \<close>
  The protocol \<open>Startable\<close> is declared in np_services.protocols;
  \<open>isinstance_Startable\<close> is the outcome of \<^verbatim>\<open>isinstance(cls, Startable)\<close> for the class.
\<close>

definition get_required_disk_gb :: "env \<Rightarrow> state \<Rightarrow> real result" where
  "get_required_disk_gb E st =
     andthen (ensure_config E st) (\<lambda>u st1.
       if \<not> isinstance_Startable E then (Inr 0, st1)
       else
         (case (min_rec_hr st1, gb_per_hr st1) of
            (Some m, Some g) \<Rightarrow> (Inr (py_round1 (m * g)), st1)
          | _ \<Rightarrow> (Inl AttributeError, st1)))"

definition is_disk_space_ok :: "env \<Rightarrow> state \<Rightarrow> bool result" where
  "is_disk_space_ok E st =
     andthen (get_required_disk_gb E st) (\<lambda>required st1.
       if required = 0 then (Inr True, st1)
       else
         (case free_gb E st1 (data_root st1) of
            Inl e \<Rightarrow>
              if is_a e FileNotFoundError
              then (Inr False, logger Error ''data path not accessible'' (st1\<lparr>exc := Some e\<rparr>))
              else (Inl e, st1)
          | Inr free \<Rightarrow> (Inr (required < free), logger Debug ''free disk space'' st1)))"

section \<open>proxies.py: CamstimSyncShared\<close>

text \<open>
  \<^verbatim>\<open>
  def is_ready_to_start(cls) -> bool:
      if cls.is_started():
          return False
      state = cls.get_state()
      if isinstance(state, Mapping) and state.get("message", "") == "READY":
          return True
      if isinstance(state, Sequence) and "READY" in state:
          return True
      return False

  def is_started(cls) -> bool:
      return len(state := cls.get_state()) and all(
          msg in state for msg in cls.started_state
      )
  \<close>
  \<open>Phidget\<close> and \<open>MouseDirector\<close> declare no \<open>started_state\<close>: reading it raises
  \<open>AttributeError\<close>.
\<close>

fun state_len :: "dev_state \<Rightarrow> nat" where
  "state_len (Tuple xs) = length xs"
| "state_len (Mapping kvs) = length kvs"

fun state_contains :: "dev_state \<Rightarrow> string \<Rightarrow> bool" where
  "state_contains (Tuple xs) msg = (msg \<in> set xs)"
| "state_contains (Mapping kvs) msg = (msg \<in> set (map fst kvs))"

fun state_is_ready :: "dev_state \<Rightarrow> bool" where
  "state_is_ready (Mapping kvs) = (map_of kvs ''message'' = Some ''READY'')"
| "state_is_ready (Tuple xs) = (''READY'' \<in> set xs)"

definition all_started :: "env \<Rightarrow> dev_state \<Rightarrow> state \<Rightarrow> bool result" where
  "all_started E s st =
     (if state_len s = 0 then (Inr False, st)
      else (case started_state E of
              None \<Rightarrow> (Inl AttributeError, st)
            | Some msgs \<Rightarrow> (Inr (list_all (state_contains s) msgs), st)))"

definition CamstimSyncShared_is_started :: "env \<Rightarrow> state \<Rightarrow> bool result" where
  "CamstimSyncShared_is_started E st = andthen (Proxy_get_state E st) (all_started E)"

definition CamstimSyncShared_is_ready_to_start :: "env \<Rightarrow> state \<Rightarrow> bool result" where
  "CamstimSyncShared_is_ready_to_start E st =
     andthen (CamstimSyncShared_is_started E st) (\<lambda>started st1.
       if started then (Inr False, st1)
       else andthen (Proxy_get_state E st1) (\<lambda>s st2. (Inr (state_is_ready s), st2)))"

text \<open>
  \<^verbatim>\<open>
  def start(cls) -> None:
      logger.debug("Starting %s", cls.__name__)
      if cls.is_started():
          logger.warning(
              "%s already started - should be stopped manually", cls.__name__
          )
          return
          # otherwise, Sync - for example - would stop current recording and start another
      if not cls.is_ready_to_start():
          logger.error("%s not ready to start: %s", cls.__name__, cls.get_state())
          raise AssertionError(
              f"{cls.__name__} not ready to start: {cls.get_state()}"
          )
      cls.latest_start = time.time()
      cls.get_proxy().start()

  def verify(cls) -> None:
      if not cls.is_started():
          logger.warning(
              "Cannot verify %s if not started: %s", cls.__name__, cls.get_state()
          )
          raise AssertionError(f"{cls.__name__} not started: {cls.get_state()}")

  def stop(cls) -> None:
      logger.debug("Stopping %s", cls.__name__)
      cls.get_proxy().stop()
  \<close>
  The state is queried once for the log record and once more for the message of the
  \<open>AssertionError\<close>; either query can raise instead.
\<close>

definition CamstimSyncShared_start :: "env \<Rightarrow> state \<Rightarrow> unit result" where
  "CamstimSyncShared_start E st =
     andthen (CamstimSyncShared_is_started E (logger Debug ''Starting %s'' st)) (\<lambda>started st1.
       if started
       then (Inr (), logger Warning ''%s already started - should be stopped manually'' st1)
       else
         andthen (CamstimSyncShared_is_ready_to_start E st1) (\<lambda>ready st2.
           if \<not> ready then
             andthen (Proxy_get_state E st2) (\<lambda>s st3.
             andthen (Proxy_get_state E (logger Error ''%s not ready to start: %s'' st3)) (\<lambda>s st4.
               (Inl AssertionError, st4)))
           else command E Start (st2\<lparr>latest_start := Some (now st2)\<rparr>)))"

definition CamstimSyncShared_verify :: "env \<Rightarrow> state \<Rightarrow> unit result" where
  "CamstimSyncShared_verify E st =
     andthen (CamstimSyncShared_is_started E st) (\<lambda>started st1.
       if \<not> started then
         andthen (Proxy_get_state E st1) (\<lambda>s st2.
         andthen (Proxy_get_state E (logger Warning ''Cannot verify %s if not started: %s'' st2))
           (\<lambda>s st3. (Inl AssertionError, st3)))
       else (Inr (), st1))"

definition CamstimSyncShared_stop :: "env \<Rightarrow> state \<Rightarrow> unit result" where
  "CamstimSyncShared_stop E st = command E Stop (logger Debug ''Stopping %s'' st)"

section \<open>proxies.py: Sync and Camstim\<close>

text \<open>
  \<^verbatim>\<open>
  def finalize(cls) -> None:
      logger.debug("Finalizing %s", cls.__name__)
      if cls.is_started():
          cls.stop()
      while not cls.is_ready_to_start():
          logger.debug("Waiting for %s to finish processing", cls.__name__)
          time.sleep(1)  # TODO add backoff module
      if not cls.data_files:
          cls.data_files = []
      cls.data_files.extend(new := cls.get_latest_data("*.h5"))
      logger.debug("%s processing finished: %s", cls.__name__, [_.name for _ in new])
  \<close>
  \<open>Camstim.finalize\<close> is the same with \<^verbatim>\<open>"*.pkl"\<close> and \<^verbatim>\<open>logger.info\<close>. The loop has
  no bound, so it is a partial function: \<open>None\<close> is a run that never leaves the loop.
  \<^verbatim>\<open>extend(None)\<close> raises \<open>TypeError\<close>.
\<close>

partial_function (option) wait_until_ready :: "env \<Rightarrow> state \<Rightarrow> unit result option" where
  "wait_until_ready E st =
     (case CamstimSyncShared_is_ready_to_start E st of
        (Inl e, st1) \<Rightarrow> Some (Inl e, st1)
      | (Inr ready, st1) \<Rightarrow>
          if ready then Some (Inr (), st1)
          else wait_until_ready E
                 (sleep 1 (logger Debug ''Waiting for %s to finish processing'' st1)))"

definition stop_if_started :: "env \<Rightarrow> state \<Rightarrow> unit result" where
  "stop_if_started E st =
     andthen (CamstimSyncShared_is_started E st) (\<lambda>started st1.
       if started then CamstimSyncShared_stop E st1 else (Inr (), st1))"

definition extend_data_files ::
  "env \<Rightarrow> string \<Rightarrow> level \<Rightarrow> string \<Rightarrow> state \<Rightarrow> unit result" where
  "extend_data_files E glob l msg st =
     (let old = (case data_files st of None \<Rightarrow> [] | Some fs \<Rightarrow> fs) in
      andthen (get_latest_data E (st\<lparr>data_files := Some old\<rparr>) (Some glob) []) (\<lambda>new st1.
        case new of
          None \<Rightarrow> (Inl TypeError, st1)
        | Some fs \<Rightarrow> (Inr (), logger l msg (st1\<lparr>data_files := Some (old @ fs)\<rparr>))))"


definition Camstim_finalize :: "env \<Rightarrow> state \<Rightarrow> unit result option" where
  "Camstim_finalize E st =
     (case stop_if_started E (logger Info ''Finalizing %s'' st) of
        (Inl e, st1) \<Rightarrow> Some (Inl e, st1)
      | (Inr u, st1) \<Rightarrow>
          (case wait_until_ready E st1 of
             None \<Rightarrow> None
           | Some (Inl e, st2) \<Rightarrow> Some (Inl e, st2)
           | Some (Inr u, st2) \<Rightarrow>
               Some (extend_data_files E ''*.pkl'' Info ''%s added new data: %s'' st2)))"

text \<open>
  \<^verbatim>\<open>
  def verify(cls) -> None:
      "Assert latest data file is currently increasing in size, or raise AssertionError."
      super().verify()
      if cls.data_root and not utils.is_file_growing(cls.get_latest_data()[-1]):
          raise AssertionError(
              f"{cls.__name__} latest data file is not increasing in size: {cls.get_latest_data()[-1]}"
          )
      logger.debug("%s latest data file is increasing in size", cls.__name__)
  \<close>
  \<open>latest\<close> is \<^verbatim>\<open>cls.get_latest_data()[-1]\<close>: subscripting \<^verbatim>\<open>None\<close> raises \<open>TypeError\<close>,
  an empty list \<open>IndexError\<close>.
\<close>

definition latest :: "env \<Rightarrow> state \<Rightarrow> file_entry result" where
  "latest E st =
     andthen (get_latest_data E st None []) (\<lambda>files st1.
       case files of
         None \<Rightarrow> (Inl TypeError, st1)
       | Some [] \<Rightarrow> (Inl IndexError, st1)
       | Some fs \<Rightarrow> (Inr (last fs), st1))"

definition Sync_verify :: "env \<Rightarrow> state \<Rightarrow> unit result" where
  "Sync_verify E st =
     andthen (CamstimSyncShared_verify E st) (\<lambda>u st1.
       if data_root st1 = None
       then (Inr (), logger Debug ''%s latest data file is increasing in size'' st1)
       else
         andthen (latest E st1) (\<lambda>f st2.
         andthen (is_file_growing E st2 (fname f)) (\<lambda>growing st3.
           if \<not> growing
           then andthen (latest E st3) (\<lambda>f st4. (Inl AssertionError, st4))
           else (Inr (), logger Debug ''%s latest data file is increasing in size'' st3))))"

text \<open>
  \<^verbatim>\<open>
  class ScriptCamstim(Camstim):
      def start(cls):
          cls.latest_start = time.time()
          cls.get_proxy().start_script(cls.script, cls.params)

  class SessionCamstim(Camstim):
      def start(cls):
          cls.latest_start = time.time()
          cls.get_proxy().start_session(cls.labtracks_mouse_id, cls.lims_user_id)
  \<close>
\<close>

definition ScriptCamstim_start :: "env \<Rightarrow> state \<Rightarrow> unit result" where
  "ScriptCamstim_start E st = command E Start_script (st\<lparr>latest_start := Some (now st)\<rparr>)"

definition SessionCamstim_start :: "env \<Rightarrow> state \<Rightarrow> unit result" where
  "SessionCamstim_start E st = command E Start_session (st\<lparr>latest_start := Some (now st)\<rparr>)"

section \<open>proxies.py: MVR, ImageMVR and VideoMVR\<close>

text \<open>
  \<open>MVR.get_camera_status\<close> sends a request to MVR and reads the reply, or raises
  \<open>ConnectionError\<close>; it is one interaction with the device, answered by the
  environment. \<open>utils.is_online\<close> (a ping) and the connector's \<^verbatim>\<open>_mvr_connected\<close> flag are
  interactions too.
  \<^verbatim>\<open>
  def is_connected(cls) -> bool:
      if not utils.is_online(cls.host):
          cls.exc = ConnectionError(
              f"No response from {cls.host}: may be offline or unreachable"
          )
          return False
      if not cls.get_proxy()._mvr_connected:
          cls.exc = ConnectionError(f"MVR likely not running on {cls.host}")
          return False
      try:
          _ = cls.get_camera_status()
      except ConnectionError as exc:
          cls.exc = exc
          return False
      return True

  def get_state(cls) -> ProxyState:
      if not cls.is_connected():
          return "", "MVR_CLOSED"
      status = cls.get_camera_status()
      # cam status could change between calls, so only get once
      if any(not _["is_open"] for _ in status):
          return "", "CAMERA_CLOSED"
      if any(not _["is_streaming"] for _ in status):
          return "", "CAMERA_NOT_STREAMING"
      if cls.get_cameras_recording(status):
          return "BUSY", "RECORDING"
      return "READY", ""

  def get_cameras_recording(cls, status=None) -> list[dict[str, str]]:
      return [_ for _ in status or cls.get_camera_status() if _["is_recording"]]

  def is_ready_to_start(cls) -> bool:
      if cls.is_started():
          return False
      return all(
          _["is_open"] and _["is_streaming"] and not _["is_recording"]
          for _ in cls.get_camera_status()
      )
  \<close>
\<close>

definition MVR_get_camera_status :: "env \<Rightarrow> state \<Rightarrow> camera list result" where
  "MVR_get_camera_status E st =
     andthen (get_proxy E st) (\<lambda>u st1.
       (mvr_camera_status E (tick st1), st1\<lparr>tick := tick st1 + 1\<rparr>))"

definition MVR_is_connected :: "env \<Rightarrow> state \<Rightarrow> bool result" where
  "MVR_is_connected E st =
     (if \<not> is_online E (tick st)
      then (Inr False, st\<lparr>tick := tick st + 1, exc := Some ConnectionError\<rparr>)
      else
        andthen (get_proxy E (st\<lparr>tick := tick st + 1\<rparr>)) (\<lambda>u st1.
          if \<not> mvr_connected E (tick st1)
          then (Inr False, st1\<lparr>tick := tick st1 + 1, exc := Some ConnectionError\<rparr>)
          else
            (case MVR_get_camera_status E (st1\<lparr>tick := tick st1 + 1\<rparr>) of
               (Inl e, st2) \<Rightarrow>
                 if is_a e ConnectionError then (Inr False, st2\<lparr>exc := Some e\<rparr>)
                 else (Inl e, st2)
             | (Inr status, st2) \<Rightarrow> (Inr True, st2))))"

definition MVR_get_cameras_recording ::
  "env \<Rightarrow> camera list option \<Rightarrow> state \<Rightarrow> camera list result" where
  "MVR_get_cameras_recording E status st =
     (if status = None \<or> status = Some []
      then andthen (MVR_get_camera_status E st) (\<lambda>s st1. (Inr (filter is_recording s), st1))
      else (Inr (filter is_recording (the status)), st))"

definition MVR_get_state :: "env \<Rightarrow> state \<Rightarrow> dev_state result" where
  "MVR_get_state E st =
     andthen (MVR_is_connected E st) (\<lambda>connected st1.
       if \<not> connected then (Inr (Tuple [[], ''MVR_CLOSED'']), st1)
       else
         andthen (MVR_get_camera_status E st1) (\<lambda>status st2.
           if list_ex (\<lambda>c. \<not> is_open c) status then (Inr (Tuple [[], ''CAMERA_CLOSED'']), st2)
           else if list_ex (\<lambda>c. \<not> is_streaming c) status
           then (Inr (Tuple [[], ''CAMERA_NOT_STREAMING'']), st2)
           else
             andthen (MVR_get_cameras_recording E (Some status) st2) (\<lambda>recording st3.
               if recording \<noteq> [] then (Inr (Tuple [''BUSY'', ''RECORDING'']), st3)
               else (Inr (Tuple [''READY'', []]), st3))))"

definition MVR_is_ready_to_start ::
  "(env \<Rightarrow> state \<Rightarrow> bool result) \<Rightarrow> env \<Rightarrow> state \<Rightarrow> bool result" where
  "MVR_is_ready_to_start is_started E st =
     andthen (is_started E st) (\<lambda>started st1.
       if started then (Inr False, st1)
       else
         andthen (MVR_get_camera_status E st1) (\<lambda>status st2.
           (Inr (list_all (\<lambda>c. is_open c \<and> is_streaming c \<and> \<not> is_recording c) status), st2)))"

text \<open>
  \<^verbatim>\<open>
  class ImageMVR(MVR):
      def start(cls):
          if not cls.is_ready_to_start():
              # TODO display state, wait on user input to continue
              logger.error("%s not ready to start: %s", cls.__name__, cls.get_state())
              raise AssertionError(
                  f"{cls.__name__} not ready to start: {cls.get_state()}"
              )
          cls.latest_start = time.time()
          cls.get_proxy().take_snapshot()

      def is_started(cls) -> bool:
          for msg in cls.get_proxy().read():
              if msg.get("mvr_broadcast", "") == "snapshot_converted":
                  return True
              if msg.get("mvr_broadcast", "") == "snapshot_failed":
                  return False
          return False
  \<close>
  \<open>mvr_read\<close> gives the \<^verbatim>\<open>mvr_broadcast\<close> value of every message read, \<^verbatim>\<open>""\<close> for a
  message without one.
\<close>

fun snapshot_converted :: "string list \<Rightarrow> bool" where
  "snapshot_converted [] = False"
| "snapshot_converted (m # ms) =
     (if m = ''snapshot_converted'' then True
      else if m = ''snapshot_failed'' then False
      else snapshot_converted ms)"

definition ImageMVR_is_started :: "env \<Rightarrow> state \<Rightarrow> bool result" where
  "ImageMVR_is_started E st =
     andthen (get_proxy E st) (\<lambda>u st1.
       (Inr (snapshot_converted (mvr_read E (tick st1))), st1\<lparr>tick := tick st1 + 1\<rparr>))"

definition ImageMVR_start :: "env \<Rightarrow> state \<Rightarrow> unit result" where
  "ImageMVR_start E st =
     andthen (MVR_is_ready_to_start ImageMVR_is_started E st) (\<lambda>ready st1.
       if \<not> ready then
         andthen (MVR_get_state E st1) (\<lambda>s st2.
         andthen (MVR_get_state E (logger Error ''%s not ready to start: %s'' st2)) (\<lambda>s st3.
           (Inl AssertionError, st3)))
       else command E Take_snapshot (st1\<lparr>latest_start := Some (now st1)\<rparr>))"

text \<open>
  \<^verbatim>\<open>
  class VideoMVR(MVR):
      started_state = ("BUSY", "RECORDING")

      def start(cls) -> None:
          cls.latest_start = time.time()
          cls.get_proxy().start_record(record_time=365 * 60,)  # sec

      def stop(cls) -> None:
          cls.get_proxy().stop_record()

      def is_started(cls) -> bool:
          if len(state := cls.get_state()) and all(
              msg in state for msg in cls.started_state
          ):
              return True
          return False

      def finalize(cls) -> None:
          logger.debug("Finalizing %s", cls.__name__)
          if cls.is_started():
              cls.stop()
          t0 = time.time()
          timedout = lambda: time.time() > t0 + 30
          while not cls.is_ready_to_start() and not timedout():
              logger.debug("Waiting for %s to finish processing", cls.__name__)
              time.sleep(1)  # TODO add backoff module
          if timedout():
              logger.warning(
                  "Timed out waiting for %s to finish processing", cls.__name__
              )
              return
          if not hasattr(cls, "data_files"):
              cls.data_files = []
          cls.data_files.extend(
              new := (cls.get_latest_data("*.mp4") + cls.get_latest_data("*.json"))
          )
          logger.debug("%s processing finished: %s", cls.__name__, [_.name for _ in new])
  \<close>
  \<^verbatim>\<open>hasattr(cls, "data_files")\<close> is always true (the class default is \<^verbatim>\<open>None\<close>), so a
  \<open>data_files\<close> of \<^verbatim>\<open>None\<close> fails at \<^verbatim>\<open>.extend\<close> with \<open>AttributeError\<close>; adding
  \<^verbatim>\<open>None\<close> to a list, or a list to \<^verbatim>\<open>None\<close>, raises \<open>TypeError\<close>.
\<close>

definition VideoMVR_start :: "env \<Rightarrow> state \<Rightarrow> unit result" where
  "VideoMVR_start E st = command E Start_record (st\<lparr>latest_start := Some (now st)\<rparr>)"


definition VideoMVR_is_started :: "env \<Rightarrow> state \<Rightarrow> bool result" where
  "VideoMVR_is_started E st = andthen (MVR_get_state E st) (all_started E)"



text \<open>
  The loop of \<open>VideoMVR.finalize\<close> ends when the device is ready or the clock has passed
  \<open>t0 + 30\<close>. Every pass sleeps one second and no probe moves the clock, so the loop
  terminates: the recursion is well-founded on the time left. \<open>frame\<close> states what the
  probes leave alone; it is only used to prove that.
\<close>

definition frame :: "state \<Rightarrow> state \<Rightarrow> bool" where
  "frame st st' = (now st' = now st \<and> sent st' = sent st \<and> latest_start st' = latest_start st
                   \<and> data_files st' = data_files st)"

lemma frame_refl: "frame st st" by (simp add: frame_def)

lemma frame_trans: "frame a b \<Longrightarrow> frame b c \<Longrightarrow> frame a c" by (simp add: frame_def)

lemma frame_andthen:
  assumes "frame st0 (snd r)"
    and "\<And>a. fst r = Inr a \<Longrightarrow> frame (snd r) (snd (f a (snd r)))"
  shows "frame st0 (snd (andthen r f))"
proof (cases r)
  case (Pair x st1)
  show ?thesis
  proof (cases x)
    case (Inl e)
    then show ?thesis using Pair assms(1) by (simp add: andthen_def)
  next
    case (Inr a)
    then show ?thesis using Pair assms frame_trans[of st0 st1] by (simp add: andthen_def)
  qed
qed

lemma frame_config_required: "frame st (snd (config_required E st))"
  by (simp add: config_required_def frame_def Let_def)

lemma frame_config_defaults: "frame st (config_defaults E st)"
  by (simp add: config_defaults_def frame_def)

lemma frame_config_data_root: "frame st (snd (config_data_root E st))"
  by (simp add: config_data_root_def frame_def Let_def logger_def split: option.splits)

lemma frame_config_mkdir: "frame st (snd (config_mkdir E st))"
  by (simp add: config_mkdir_def frame_def split: option.splits)

lemma frame_ensure_config: "frame st (snd (ensure_config E st))"
  unfolding ensure_config_def
  by (intro frame_andthen frame_config_required frame_trans[OF frame_config_defaults frame_config_data_root] frame_config_mkdir)

lemma frame_get_proxy: "frame st (snd (get_proxy E st))"
proof (cases "proxy st")
  case True
  then show ?thesis by (simp add: get_proxy_def frame_refl)
next
  case False
  have "frame st (snd (andthen (ensure_config E st) (\<lambda>u st1.
             (Inr (), (logger Debug ''Creating proxy'' st1)\<lparr>proxy := True\<rparr>))))"
    by (intro frame_andthen frame_ensure_config) (simp add: frame_def logger_def)
  then show ?thesis using False by (simp add: get_proxy_def)
qed

lemma frame_tick: "frame st (st\<lparr>tick := n\<rparr>)" by (simp add: frame_def)

lemma frame_Proxy_get_state: "frame st (snd (Proxy_get_state E st))"
  unfolding Proxy_get_state_def
  by (intro frame_andthen frame_get_proxy) (simp add: frame_def)

lemma frame_all_started: "frame st (snd (all_started E s st))"
  by (simp add: all_started_def frame_def split: option.splits)

lemma frame_CamstimSyncShared_is_started: "frame st (snd (CamstimSyncShared_is_started E st))"
  unfolding CamstimSyncShared_is_started_def
  by (intro frame_andthen frame_Proxy_get_state frame_all_started)

lemma frame_CamstimSyncShared_is_ready_to_start:
  "frame st (snd (CamstimSyncShared_is_ready_to_start E st))"
  unfolding CamstimSyncShared_is_ready_to_start_def
proof (intro frame_andthen frame_CamstimSyncShared_is_started)
  fix a
  show "frame (snd (CamstimSyncShared_is_started E st))
          (snd (if a then (Inr False, snd (CamstimSyncShared_is_started E st))
                else andthen (Proxy_get_state E (snd (CamstimSyncShared_is_started E st)))
                       (\<lambda>s st2. (Inr (state_is_ready s), st2))))"
    by (cases a) (auto intro!: frame_andthen frame_Proxy_get_state frame_refl)
qed

lemma frame_MVR_get_camera_status: "frame st (snd (MVR_get_camera_status E st))"
  unfolding MVR_get_camera_status_def
  by (intro frame_andthen frame_get_proxy) (simp add: frame_def)

lemma frame_MVR_is_connected: "frame st (snd (MVR_is_connected E st))"
proof (cases "is_online E (tick st)")
  case False
  then show ?thesis by (simp add: MVR_is_connected_def frame_def)
next
  case True
  let ?st0 = "st\<lparr>tick := tick st + 1\<rparr>"
  have "frame ?st0 (snd (andthen (get_proxy E ?st0) (\<lambda>u st1.
          if \<not> mvr_connected E (tick st1)
          then (Inr False, st1\<lparr>tick := tick st1 + 1, exc := Some ConnectionError\<rparr>)
          else
            (case MVR_get_camera_status E (st1\<lparr>tick := tick st1 + 1\<rparr>) of
               (Inl e, st2) \<Rightarrow>
                 if is_a e ConnectionError then (Inr False, st2\<lparr>exc := Some e\<rparr>)
                 else (Inl e, st2)
             | (Inr status, st2) \<Rightarrow> (Inr True, st2)))))"
  proof (intro frame_andthen frame_get_proxy)
    fix a
    let ?s1 = "snd (get_proxy E ?st0)"
    have f: "frame ?s1 (snd (MVR_get_camera_status E (?s1\<lparr>tick := tick ?s1 + 1\<rparr>)))"
      by (rule frame_trans[OF frame_tick frame_MVR_get_camera_status])
    show "frame ?s1 (snd (if \<not> mvr_connected E (tick ?s1)
          then (Inr False, ?s1\<lparr>tick := tick ?s1 + 1, exc := Some ConnectionError\<rparr>)
          else
            (case MVR_get_camera_status E (?s1\<lparr>tick := tick ?s1 + 1\<rparr>) of
               (Inl e, st2) \<Rightarrow>
                 if is_a e ConnectionError then (Inr False, st2\<lparr>exc := Some e\<rparr>)
                 else (Inl e, st2)
             | (Inr status, st2) \<Rightarrow> (Inr True, st2))))"
      using f by (auto simp: frame_def split: prod.splits sum.splits)
  qed
  then have "frame st (snd (andthen (get_proxy E ?st0) (\<lambda>u st1.
          if \<not> mvr_connected E (tick st1)
          then (Inr False, st1\<lparr>tick := tick st1 + 1, exc := Some ConnectionError\<rparr>)
          else
            (case MVR_get_camera_status E (st1\<lparr>tick := tick st1 + 1\<rparr>) of
               (Inl e, st2) \<Rightarrow>
                 if is_a e ConnectionError then (Inr False, st2\<lparr>exc := Some e\<rparr>)
                 else (Inl e, st2)
             | (Inr status, st2) \<Rightarrow> (Inr True, st2)))))"
    by (rule frame_trans[OF frame_tick])
  then show ?thesis using True by (simp add: MVR_is_connected_def)
qed

lemma frame_MVR_get_cameras_recording:
  "frame st (snd (MVR_get_cameras_recording E status st))"
  unfolding MVR_get_cameras_recording_def
  by (auto intro!: frame_andthen frame_MVR_get_camera_status frame_refl)

lemma frame_MVR_get_state: "frame st (snd (MVR_get_state E st))"
  unfolding MVR_get_state_def
  by (auto intro!: frame_andthen frame_MVR_is_connected frame_MVR_get_camera_status
        frame_MVR_get_cameras_recording frame_refl)


lemma frame_MVR_is_ready_to_start:
  assumes "\<And>st. frame st (snd (is_started E st))"
  shows "frame st (snd (MVR_is_ready_to_start is_started E st))"
  unfolding MVR_is_ready_to_start_def
  by (auto intro!: frame_andthen assms frame_MVR_get_camera_status frame_refl)





section \<open>Example devices\<close>

text \<open>
  A \<open>Sync\<close> class as its class body declares it, before any method ran: \<open>host\<close> is set,
  \<open>latest_start\<close> is the \<open>0\<close> that \<open>Proxy\<close> declares, every other attribute is
  missing or \<^verbatim>\<open>None\<close>. Its configuration names a port and a data directory and leaves
  the recording rates to their defaults. The device answers every probe with
  \<^verbatim>\<open>("READY", "")\<close>, and the disk holds 6.1 GB.
\<close>

definition example_Sync :: env where
  "example_Sync =
     \<lparr>isinstance_Startable = True,
      started_state = Some [''BUSY'', ''RECORDING''],
      raw_suffix = Some ''.sync'',
      camstim_config = False,
      cfg_host = None, cfg_port = Some 5000, cfg_timeout = None, cfg_serialization = None,
      cfg_pretest_duration_sec = None, cfg_gb_per_hr = None, cfg_min_rec_hr = None,
      cfg_data = Some ''data'',
      path_parts = (\<lambda>p. [''//'', ''sync'', ''data'']),
      path_exists = (\<lambda>t p. None),
      path_mkdir = (\<lambda>t p. None),
      path_is_dir = (\<lambda>t p. True),
      path_parent = (\<lambda>p. p),
      path_glob = (\<lambda>t p g. []),
      path_size = (\<lambda>t p. Inl FileNotFoundError),
      unc_to_local = Inr,
      disk_usage_free = (\<lambda>t p. Inr 6100000000),
      is_online = (\<lambda>n. True),
      zro_get_state = (\<lambda>n. Inr (Tuple [''READY'', []])),
      zro_command = (\<lambda>n c. None),
      mvr_connected = (\<lambda>n. True),
      mvr_camera_status = (\<lambda>n. Inr []),
      mvr_read = (\<lambda>n. [])\<rparr>"

definition class_defaults :: state where
  "class_defaults =
     \<lparr>now = 1000, tick = 0, sent = [], logged = [], proxy = False,
      host = Some ''sync'', port = None, timeout = None, serialization = None,
      pretest_duration_sec = None, gb_per_hr = None, min_rec_hr = None,
      data_root = None, data_files = None, exc = None, latest_start = Some 0\<rparr>"

text \<open>The same class once \<open>ensure_config\<close> has run.\<close>

definition configured :: state where
  "configured =
     class_defaults\<lparr>port := Some 5000, timeout := Some 10, serialization := Some ''json'',
       pretest_duration_sec := Some 5, gb_per_hr := Some 2, min_rec_hr := Some 3,
       data_root := Some ''//sync/data''\<rparr>"

text \<open>Variants of the example: another amount of free space, a data root that cannot be
  reached, and a class that is not \<open>Startable\<close>.\<close>

definition example_disk :: "(exn + nat) \<Rightarrow> env" where
  "example_disk free = example_Sync\<lparr>disk_usage_free := (\<lambda>t p. free)\<rparr>"

definition example_not_Startable :: env where
  "example_not_Startable =
     example_Sync\<lparr>isinstance_Startable := False, disk_usage_free := (\<lambda>t p. Inl FileNotFoundError)\<rparr>"

text \<open>A data root whose existence test fails with \<open>OSError\<close>.\<close>

definition unreachable_Sync :: env where
  "unreachable_Sync = example_Sync\<lparr>path_exists := (\<lambda>t p. Some OSError)\<rparr>"

text \<open>Data directories with given entries, whatever the pattern.\<close>

definition example_files :: "file_entry list \<Rightarrow> env" where
  "example_files fs = example_Sync\<lparr>path_glob := (\<lambda>t p g. fs)\<rparr>"

definition file_999 :: file_entry where
  "file_999 = \<lparr>fname = ''//sync/data/a.sync'', st_ctime = 999, st_mtime = 999, st_size = 1\<rparr>"

definition file_1001 :: file_entry where
  "file_1001 = \<lparr>fname = ''//sync/data/b.sync'', st_ctime = 1001, st_mtime = 1001, st_size = 1\<rparr>"

definition file_500 :: file_entry where
  "file_500 = \<lparr>fname = ''//sync/data/old.sync'', st_ctime = 500, st_mtime = 500, st_size = 1\<rparr>"

definition file_1000_2 :: file_entry where
  "file_1000_2 =
     \<lparr>fname = ''//sync/data/c.sync'', st_ctime = 10002 / 10, st_mtime = 10002 / 10, st_size = 1\<rparr>"

text \<open>
  The configured class with its proxy created, and devices in other conditions: a
  \<open>Sync\<close> that records, one that is busy without recording, a \<open>Camstim\<close> that is busy
  without a script in progress, and MVR with its one camera recording, idle or closed.
\<close>

definition initialized :: state where
  "initialized = configured\<lparr>proxy := True\<rparr>"

definition recording_Sync :: env where
  "recording_Sync = example_Sync\<lparr>zro_get_state := (\<lambda>n. Inr (Tuple [''BUSY'', ''RECORDING'']))\<rparr>"

definition processing_Sync :: env where
  "processing_Sync = example_Sync\<lparr>zro_get_state := (\<lambda>n. Inr (Tuple [''BUSY'', ''PROCESSING'']))\<rparr>"

definition processing_Camstim :: env where
  "processing_Camstim =
     example_Sync\<lparr>started_state := Some [''BUSY'', ''Script in progress.''], raw_suffix := None,
       camstim_config := True,
       zro_get_state := (\<lambda>n. Inr (Tuple [''BUSY'', ''PROCESSING'']))\<rparr>"

definition recording_MVR :: env where
  "recording_MVR =
     example_Sync\<lparr>raw_suffix := Some ''.mp4'',
       mvr_camera_status :=
         (\<lambda>n. Inr [\<lparr>is_open = True, is_streaming = True, is_recording = True\<rparr>])\<rparr>"

definition idle_MVR :: env where
  "idle_MVR =
     example_Sync\<lparr>raw_suffix := Some ''.mp4'',
       mvr_camera_status :=
         (\<lambda>n. Inr [\<lparr>is_open = True, is_streaming = True, is_recording = False\<rparr>])\<rparr>"

definition closed_MVR :: env where
  "closed_MVR =
     example_Sync\<lparr>raw_suffix := Some ''.mp4'',
       mvr_camera_status :=
         (\<lambda>n. Inr [\<lparr>is_open = False, is_streaming = False, is_recording = False\<rparr>])\<rparr>"

text \<open>A recording \<open>Sync\<close> whose newest data file is still empty.\<close>

definition file_empty :: file_entry where
  "file_empty = \<lparr>fname = ''//sync/data/new.sync'', st_ctime = 999, st_mtime = 999, st_size = 0\<rparr>"

definition empty_file_Sync :: env where
  "empty_file_Sync =
     recording_Sync\<lparr>path_glob := (\<lambda>t p g. [file_empty]), path_size := (\<lambda>t p. Inr 0)\<rparr>"

section \<open>Verification\<close>

subsection \<open>Exception classes\<close>

lemma is_a_Exception: "is_a e Exception = (e \<noteq> BaseException \<and> e \<noteq> KeyboardInterrupt)"
  by (cases e; simp add: is_a_def mro_def)

lemma is_a_FileNotFoundError: "is_a e FileNotFoundError = (e = FileNotFoundError)"
  by (cases e; simp add: is_a_def mro_def)

subsection \<open>Configuration\<close>

lemmas ensure_config_defs =
  ensure_config_def andthen_def config_required_def config_defaults_def
  config_data_root_def config_mkdir_def Let_def default_to_def



lemma ensure_config_example: "ensure_config example_Sync class_defaults = (Inr (), configured)"
  by (simp add: ensure_config_defs example_Sync_def class_defaults_def configured_def)

subsection \<open>Rounding\<close>






lemma py_round1_6: "py_round1 (3 * 2) = 6"
  by (simp add: py_round1_def round_half_even_def)


subsection \<open>Required disk space\<close>



lemma get_required_disk_gb_example:
  "get_required_disk_gb example_Sync class_defaults = (Inr 6, configured)"
proof -
  have "isinstance_Startable example_Sync" by (simp add: example_Sync_def)
  moreover have "min_rec_hr configured = Some 3" "gb_per_hr configured = Some 2"
    by (simp_all add: configured_def)
  ultimately show ?thesis
    using ensure_config_example py_round1_6
    by (simp add: get_required_disk_gb_def andthen_def)
qed




lemma ensure_config_example_not_Startable:
  "ensure_config example_not_Startable class_defaults = (Inr (), configured)"
  by (simp add: ensure_config_defs example_not_Startable_def example_Sync_def class_defaults_def configured_def)



subsection \<open>suppress\<close>

text \<open>
  C9. \<open>utils.suppress\<close> lets no exception out of its block, whatever classes it was given:
  the block always ends normally, and an exception that the \<^verbatim>\<open>except\<close> clause does not
  match is dropped by the \<^verbatim>\<open>return\<close> in \<^verbatim>\<open>finally\<close> without even a log record.
\<close>

theorem suppress_swallows_every_exception:
  "fst (suppress exceptions body st) = Inr ()
   \<and> (body st = (Inl e, st1)
        \<and> \<not> list_ex (is_a e) (if exceptions = [] then [Exception] else exceptions)
      \<longrightarrow> suppress exceptions body st = (Inr (), st1))"
  by (simp add: suppress_def finally_return_def suppress_try_except_def)

theorem suppress_swallows_every_exception_witness:
  "suppress [AttributeError, OSError] (\<lambda>st. (Inl TypeError, st)) class_defaults
     = (Inr (), class_defaults)
   \<and> suppress [] (\<lambda>st. (Inl KeyboardInterrupt, st)) class_defaults = (Inr (), class_defaults)"
proof -
  have 1: "\<not> list_ex (is_a TypeError) [AttributeError, OSError]" by code_simp
  have 2: "\<not> list_ex (is_a KeyboardInterrupt) [Exception]" by code_simp
  show ?thesis
    using 1 2
      suppress_swallows_every_exception
        [of "[AttributeError, OSError]" "\<lambda>st. (Inl TypeError, st)" class_defaults TypeError class_defaults]
      suppress_swallows_every_exception
        [of "[]" "\<lambda>st. (Inl KeyboardInterrupt, st)" class_defaults KeyboardInterrupt class_defaults]
    by simp
qed

subsection \<open>Disk space\<close>

lemma ensure_config_example_disk:
  "ensure_config (example_disk free) class_defaults = (Inr (), configured)"
  by (simp add: ensure_config_defs example_disk_def example_Sync_def class_defaults_def configured_def)

lemma get_required_disk_gb_example_disk:
  "get_required_disk_gb (example_disk free) class_defaults = (Inr 6, configured)"
proof -
  have "isinstance_Startable (example_disk free)" by (simp add: example_disk_def example_Sync_def)
  moreover have "min_rec_hr configured = Some 3" "gb_per_hr configured = Some 2"
    by (simp_all add: configured_def)
  ultimately show ?thesis
    using ensure_config_example_disk py_round1_6
    by (simp add: get_required_disk_gb_def andthen_def)
qed

lemma get_required_disk_gb_example_not_Startable:
  "get_required_disk_gb example_not_Startable class_defaults = (Inr 0, configured)"
proof -
  have "\<not> isinstance_Startable example_not_Startable"
    by (simp add: example_not_Startable_def example_Sync_def)
  then show ?thesis
    using ensure_config_example_not_Startable
    by (simp add: get_required_disk_gb_def andthen_def)
qed

lemma free_gb_example_disk:
  "free_gb (example_disk free) configured (data_root configured) =
     (case free of Inl e \<Rightarrow> Inl e | Inr n \<Rightarrow> Inr (py_round1 (real n / 1000000000)))"
  by (simp add: free_gb_def example_disk_def example_Sync_def configured_def class_defaults_def)

lemma py_round1_59: "py_round1 (real 5900000000 / 1000000000) = 59 / 10"
  by (simp add: py_round1_def round_half_even_def Let_def)

lemma py_round1_61: "py_round1 (real 6100000000 / 1000000000) = 61 / 10"
  by (simp add: py_round1_def round_half_even_def Let_def)

text \<open>
  C7 (as amended). Once \<open>get_required_disk_gb\<close> has returned (so \<open>ensure_config\<close> went
  through), \<open>is_disk_space_ok\<close> fails closed. When the required space is \<open>0\<close> it
  returns \<^verbatim>\<open>True\<close> whatever the disk would answer; when \<open>free_gb\<close> raises
  \<open>FileNotFoundError\<close> it returns \<^verbatim>\<open>False\<close> and stores the error in \<open>exc\<close>; otherwise it
  returns whether the free space is strictly more than the required space. With \<open>6.0\<close>
  required, 5.9 GB free gives \<^verbatim>\<open>False\<close> and 6.1 GB free gives \<^verbatim>\<open>True\<close>.
\<close>

theorem is_disk_space_ok_fails_closed:
  assumes "get_required_disk_gb E st = (Inr required, st1)"
  shows "(required = 0 \<longrightarrow> is_disk_space_ok E st = (Inr True, st1))
       \<and> (required \<noteq> 0 \<and> free_gb E st1 (data_root st1) = Inl FileNotFoundError \<longrightarrow>
            is_disk_space_ok E st =
              (Inr False,
               logger Error ''data path not accessible'' (st1\<lparr>exc := Some FileNotFoundError\<rparr>)))
       \<and> (required \<noteq> 0 \<and> free_gb E st1 (data_root st1) = Inr free \<longrightarrow>
            is_disk_space_ok E st = (Inr (required < free), logger Debug ''free disk space'' st1))"
proof (intro conjI impI)
  assume "required = 0"
  then show "is_disk_space_ok E st = (Inr True, st1)"
    using assms by (simp add: is_disk_space_ok_def andthen_def)
next
  assume "required \<noteq> 0 \<and> free_gb E st1 (data_root st1) = Inl FileNotFoundError"
  then show "is_disk_space_ok E st =
              (Inr False, logger Error ''data path not accessible'' (st1\<lparr>exc := Some FileNotFoundError\<rparr>))"
    using assms by (simp add: is_disk_space_ok_def andthen_def is_a_FileNotFoundError)
next
  assume "required \<noteq> 0 \<and> free_gb E st1 (data_root st1) = Inr free"
  then show "is_disk_space_ok E st = (Inr (required < free), logger Debug ''free disk space'' st1)"
    using assms by (simp add: is_disk_space_ok_def andthen_def)
qed

theorem is_disk_space_ok_fails_closed_witness:
  "is_disk_space_ok (example_disk (Inr 5900000000)) class_defaults
     = (Inr False, logger Debug ''free disk space'' configured)
   \<and> is_disk_space_ok (example_disk (Inr 6100000000)) class_defaults
     = (Inr True, logger Debug ''free disk space'' configured)
   \<and> is_disk_space_ok (example_disk (Inl FileNotFoundError)) class_defaults
     = (Inr False,
        logger Error ''data path not accessible'' (configured\<lparr>exc := Some FileNotFoundError\<rparr>))
   \<and> is_disk_space_ok example_not_Startable class_defaults = (Inr True, configured)"
proof -
  have a: "is_disk_space_ok (example_disk (Inr 5900000000)) class_defaults
             = (Inr False, logger Debug ''free disk space'' configured)"
    using is_disk_space_ok_fails_closed
            [OF get_required_disk_gb_example_disk, of "Inr 5900000000" "59 / 10"]
          free_gb_example_disk[of "Inr 5900000000"] py_round1_59
    by simp
  have b: "is_disk_space_ok (example_disk (Inr 6100000000)) class_defaults
             = (Inr True, logger Debug ''free disk space'' configured)"
    using is_disk_space_ok_fails_closed
            [OF get_required_disk_gb_example_disk, of "Inr 6100000000" "61 / 10"]
          free_gb_example_disk[of "Inr 6100000000"] py_round1_61
    by simp
  have c: "is_disk_space_ok (example_disk (Inl FileNotFoundError)) class_defaults
     = (Inr False,
        logger Error ''data path not accessible'' (configured\<lparr>exc := Some FileNotFoundError\<rparr>))"
    using is_disk_space_ok_fails_closed
            [OF get_required_disk_gb_example_disk, of "Inl FileNotFoundError"]
          free_gb_example_disk[of "Inl FileNotFoundError"]
    by simp
  have d: "is_disk_space_ok example_not_Startable class_defaults = (Inr True, configured)"
    using is_disk_space_ok_fails_closed[OF get_required_disk_gb_example_not_Startable]
    by simp
  show ?thesis using a b c d by simp
qed

text \<open>
  Against C7 as stated: a data root that \<open>ensure_config\<close> finds inaccessible
  (\<^verbatim>\<open>root.exists()\<close> raises \<open>OSError\<close>). \<open>get_required_disk_gb\<close> calls \<open>ensure_config\<close>
  outside the \<^verbatim>\<open>try\<close> of \<open>is_disk_space_ok\<close>, so the call raises \<open>FileNotFoundError\<close>
  where the claim has it return \<^verbatim>\<open>False\<close>.
\<close>

theorem is_disk_space_ok_raises_from_ensure_config:
  "fst (is_disk_space_ok unreachable_Sync class_defaults) = Inl FileNotFoundError"
proof -
  have o: "is_a OSError OSError" by code_simp
  have "fst (ensure_config unreachable_Sync class_defaults) = Inl FileNotFoundError"
    using o
    by (simp add: ensure_config_defs unreachable_Sync_def example_Sync_def class_defaults_def)
  then show ?thesis
    by (cases "ensure_config unreachable_Sync class_defaults")
       (simp add: is_disk_space_ok_def get_required_disk_gb_def andthen_def)
qed

subsection \<open>get_files_created_between\<close>

lemma py_int_whole: "py_int (of_int k) = k"
  by (simp add: py_int_def)

lemma py_int_lower: "0 \<le> x \<Longrightarrow> x - 1 < of_int (py_int x)"
  by (simp add: py_int_def)

text \<open>
  C2 (as amended). \<open>get_files_created_between\<close> returns exactly the entries of
  \<^verbatim>\<open>path.glob(glob)\<close> whose creation time \<open>t\<close> satisfies
  \<open>int(start) \<le> t \<le> end\<close>, where \<open>int\<close> truncates towards zero and \<open>end\<close> is the
  current time when the argument is \<^verbatim>\<open>None\<close> or \<open>0\<close>; sorted by creation time; the
  empty list when no entry qualifies. So no returned file is older than \<open>start - 1\<close>
  (for \<open>start \<ge> 0\<close>) or newer than \<open>end\<close>, and none is older than \<open>start\<close> when
  \<open>start\<close> is a whole number.
\<close>

theorem get_files_created_between_window:
  "set (get_files_created_between E st p g s e) =
      {f \<in> set (path_glob E (now st) (search_dir E st p) g).
         of_int (py_int (timestamp s)) \<le> st_ctime f \<and> st_ctime f \<le> window_end st e}
   \<and> sorted (map st_ctime (get_files_created_between E st p g s e))
   \<and> length (get_files_created_between E st p g s e) =
       length (filter (\<lambda>f. of_int (py_int (timestamp s)) \<le> st_ctime f
                            \<and> st_ctime f \<le> window_end st e)
                 (path_glob E (now st) (search_dir E st p) g))
   \<and> (0 \<le> timestamp s \<longrightarrow>
        (\<forall>f \<in> set (get_files_created_between E st p g s e).
           timestamp s - 1 < st_ctime f \<and> st_ctime f \<le> window_end st e))
   \<and> (of_int (py_int (timestamp s)) = timestamp s \<longrightarrow>
        (\<forall>f \<in> set (get_files_created_between E st p g s e).
           timestamp s \<le> st_ctime f \<and> st_ctime f \<le> window_end st e))
   \<and> ((\<forall>f \<in> set (path_glob E (now st) (search_dir E st p) g).
          \<not> (of_int (py_int (timestamp s)) \<le> st_ctime f \<and> st_ctime f \<le> window_end st e))
        \<longrightarrow> get_files_created_between E st p g s e = [])"
proof -
  let ?P = "\<lambda>f. of_int (py_int (timestamp s)) \<le> st_ctime f \<and> st_ctime f \<le> window_end st e"
  let ?fs = "path_glob E (now st) (search_dir E st p) g"
  have d: "get_files_created_between E st p g s e = sort_key st_ctime (filter ?P ?fs)"
    by (simp add: get_files_created_between_def)
  have 1: "set (get_files_created_between E st p g s e) = {f \<in> set ?fs. ?P f}"
    unfolding d by simp
  have 2: "sorted (map st_ctime (get_files_created_between E st p g s e))"
    unfolding d by (rule sorted_sort_key)
  have 3: "length (get_files_created_between E st p g s e) = length (filter ?P ?fs)"
    unfolding d by simp
  have 4: "0 \<le> timestamp s \<longrightarrow>
        (\<forall>f \<in> set (get_files_created_between E st p g s e).
           timestamp s - 1 < st_ctime f \<and> st_ctime f \<le> window_end st e)"
    unfolding 1 using py_int_lower[of "timestamp s"] by auto
  have 5: "of_int (py_int (timestamp s)) = timestamp s \<longrightarrow>
        (\<forall>f \<in> set (get_files_created_between E st p g s e).
           timestamp s \<le> st_ctime f \<and> st_ctime f \<le> window_end st e)"
    unfolding 1 by auto
  have 6: "(\<forall>f \<in> set ?fs. \<not> ?P f) \<longrightarrow> get_files_created_between E st p g s e = []"
    unfolding d by (simp add: filter_empty_conv)
  show ?thesis using 1 2 3 4 5 6 by blast
qed

text \<open>
  The scenario of the specification: files created at 999 and 1001, a window from 1000 to
  1010.
\<close>

lemma window_example:
  "get_files_created_between (example_files [file_999, file_1001]) configured ''//sync/data'' ''*''
     (Num 1000) (Some (Num 1010)) = [file_1001]"
  by (simp add: get_files_created_between_def example_files_def example_Sync_def window_end_def
      py_int_def file_999_def file_1001_def)

lemma window_example_empty:
  "get_files_created_between (example_files [file_999]) configured ''//sync/data'' ''*''
     (Num 1000) (Some (Num 1010)) = []"
  by (simp add: get_files_created_between_def example_files_def example_Sync_def window_end_def
      py_int_def file_999_def)

theorem get_files_created_between_window_witness:
  "get_files_created_between (example_files [file_999, file_1001]) configured ''//sync/data'' ''*''
     (Num 1000) (Some (Num 1010)) = [file_1001]
   \<and> timestamp (Num 1000) \<le> st_ctime file_1001
   \<and> st_ctime file_1001 \<le> window_end configured (Some (Num 1010))
   \<and> get_files_created_between (example_files [file_999]) configured ''//sync/data'' ''*''
        (Num 1000) (Some (Num 1010)) = []"
proof -
  note t = get_files_created_between_window
             [of _ configured "''//sync/data''" "''*''" "Num 1000" "Some (Num 1010)"]
  have w: "of_int (py_int (timestamp (Num 1000))) = timestamp (Num 1000)"
    by (simp add: py_int_def)
  have "\<forall>f \<in> set (get_files_created_between (example_files [file_999, file_1001]) configured
                    ''//sync/data'' ''*'' (Num 1000) (Some (Num 1010))).
          timestamp (Num 1000) \<le> st_ctime f
          \<and> st_ctime f \<le> window_end configured (Some (Num 1010))"
    using t[of "example_files [file_999, file_1001]"] w by blast
  then have a: "timestamp (Num 1000) \<le> st_ctime file_1001
                \<and> st_ctime file_1001 \<le> window_end configured (Some (Num 1010))"
    by (simp add: window_example)
  have "\<forall>f \<in> set (path_glob (example_files [file_999]) (now configured)
                    (search_dir (example_files [file_999]) configured ''//sync/data'') ''*'').
          \<not> (of_int (py_int (timestamp (Num 1000))) \<le> st_ctime f
               \<and> st_ctime f \<le> window_end configured (Some (Num 1010)))"
    by (simp add: example_files_def example_Sync_def file_999_def py_int_def)
  then have b: "get_files_created_between (example_files [file_999]) configured ''//sync/data'' ''*''
        (Num 1000) (Some (Num 1010)) = []"
    using t[of "example_files [file_999]"] by blast
  show ?thesis using a b window_example by simp
qed

text \<open>
  Against C2 as stated: with the window starting at 1000.7, a file created at 1000.2,
  strictly before the start, is returned.
\<close>

theorem get_files_created_between_truncates_start:
  "st_ctime file_1000_2 < timestamp (Num (10007 / 10))
   \<and> get_files_created_between (example_files [file_1000_2]) configured ''//sync/data'' ''*''
        (Num (10007 / 10)) (Some (Num 1010)) = [file_1000_2]"
  by (simp add: get_files_created_between_def example_files_def example_Sync_def window_end_def
      py_int_def file_1000_2_def)

subsection \<open>get_latest_data\<close>

lemma ensure_config_example_files:
  "ensure_config (example_files fs) class_defaults = (Inr (), configured)"
  by (simp add: ensure_config_defs example_files_def example_Sync_def class_defaults_def configured_def)

text \<open>
  C8 (what the code does). On a class that never started, \<open>latest_start\<close> is
  the declared \<open>0\<close>, not a missing attribute, so \<open>get_latest_data\<close> takes the windowed
  branch and returns every matching file of the directory, oldest first. Were the
  attribute missing, the other branch would return the most recently modified file
  alone.
\<close>

theorem get_latest_data_never_started:
  "latest_start class_defaults = Some 0
   \<and> get_latest_data (example_files [file_999, file_500]) class_defaults None []
       = (Inr (Some [file_500, file_999]), configured)
   \<and> get_latest_data (example_files [file_999, file_500]) (class_defaults\<lparr>latest_start := None\<rparr>)
         None []
       = (Inr (Some [file_999]), configured\<lparr>latest_start := None\<rparr>)"
proof -
  let ?E = "example_files [file_999, file_500]"
  have g: "get_files_created_between ?E st (joinpath ''//sync/data'' []) (default_glob ?E None)
             (Num 0) None = (if now st < 500 then [] else if now st < 999 then [file_500]
                             else [file_500, file_999])" for st
    by (simp add: get_files_created_between_def example_files_def example_Sync_def window_end_def
        py_int_def file_999_def file_500_def)
  have c: "data_root configured = Some ''//sync/data''" "latest_start configured = Some 0"
          "now configured = 1000"
    by (simp_all add: configured_def class_defaults_def)
  have e: "ensure_config ?E (class_defaults\<lparr>latest_start := None\<rparr>)
             = (Inr (), configured\<lparr>latest_start := None\<rparr>)"
    by (simp add: ensure_config_defs example_files_def example_Sync_def class_defaults_def
        configured_def)
  have m: "max_by_mtime [file_500, file_999] = Inr file_999"
    by (simp add: max_by_mtime_def file_999_def file_500_def)
  have 1: "get_latest_data ?E class_defaults None [] = (Inr (Some [file_500, file_999]), configured)"
    using ensure_config_example_files[of "[file_999, file_500]"] g[of configured] c
    by (simp add: get_latest_data_def andthen_def)
  have 2: "get_latest_data ?E (class_defaults\<lparr>latest_start := None\<rparr>) None []
             = (Inr (Some [file_999]), configured\<lparr>latest_start := None\<rparr>)"
    using e g[of "configured\<lparr>latest_start := None\<rparr>"] c m
    by (simp add: get_latest_data_def andthen_def)
  show ?thesis using 1 2 by (simp add: class_defaults_def)
qed

subsection \<open>Probes and commands once the proxy exists\<close>

lemma get_proxy_connected: "proxy st \<Longrightarrow> get_proxy E st = (Inr (), st)"
  by (simp add: get_proxy_def)

lemma Proxy_get_state_connected:
  "proxy st \<Longrightarrow> Proxy_get_state E st = (zro_get_state E (tick st), st\<lparr>tick := tick st + 1\<rparr>)"
  by (simp add: Proxy_get_state_def get_proxy_connected andthen_def)

lemma command_connected:
  "proxy st \<Longrightarrow> command E c st =
     ((case zro_command E (tick st) c of None \<Rightarrow> Inr () | Some e \<Rightarrow> Inl e),
      st\<lparr>tick := tick st + 1, sent := sent st @ [c]\<rparr>)"
  by (simp add: command_def get_proxy_connected andthen_def split: option.splits)

lemma command_frame:
  "now (snd (command E c st)) = now st \<and> latest_start (snd (command E c st)) = latest_start st
   \<and> data_files (snd (command E c st)) = data_files st"
proof -
  have f: "frame st (snd (get_proxy E st))" by (rule frame_get_proxy)
  show ?thesis
    using f unfolding command_def
    by (cases "get_proxy E st")
       (auto simp: andthen_def frame_def split: sum.splits option.splits)
qed

lemma is_started_recording_Sync:
  "proxy st \<Longrightarrow> CamstimSyncShared_is_started recording_Sync st = (Inr True, st\<lparr>tick := tick st + 1\<rparr>)"
  by (simp add: CamstimSyncShared_is_started_def Proxy_get_state_connected andthen_def
      all_started_def recording_Sync_def example_Sync_def)

lemma is_started_example_Sync:
  "proxy st \<Longrightarrow> CamstimSyncShared_is_started example_Sync st = (Inr False, st\<lparr>tick := tick st + 1\<rparr>)"
  by (simp add: CamstimSyncShared_is_started_def Proxy_get_state_connected andthen_def
      all_started_def example_Sync_def)

lemma is_started_processing_Sync:
  "proxy st \<Longrightarrow> CamstimSyncShared_is_started processing_Sync st = (Inr False, st\<lparr>tick := tick st + 1\<rparr>)"
  by (simp add: CamstimSyncShared_is_started_def Proxy_get_state_connected andthen_def
      all_started_def processing_Sync_def example_Sync_def)

lemma is_ready_example_Sync:
  "proxy st \<Longrightarrow> CamstimSyncShared_is_ready_to_start example_Sync st = (Inr True, st\<lparr>tick := tick st + 2\<rparr>)"
  by (simp add: CamstimSyncShared_is_ready_to_start_def is_started_example_Sync
      Proxy_get_state_connected andthen_def) (simp add: example_Sync_def)

lemma is_ready_processing_Sync:
  "proxy st \<Longrightarrow> CamstimSyncShared_is_ready_to_start processing_Sync st = (Inr False, st\<lparr>tick := tick st + 2\<rparr>)"
  by (simp add: CamstimSyncShared_is_ready_to_start_def is_started_processing_Sync
      Proxy_get_state_connected andthen_def) (simp add: processing_Sync_def example_Sync_def)

subsection \<open>start: CamstimSyncShared\<close>

lemma CamstimSyncShared_start_when_started:
  assumes "CamstimSyncShared_is_started E (logger Debug ''Starting %s'' st) = (Inr True, st1)"
  shows "CamstimSyncShared_start E st =
           (Inr (), logger Warning ''%s already started - should be stopped manually'' st1)
         \<and> sent st1 = sent st \<and> latest_start st1 = latest_start st"
proof -
  have "frame (logger Debug ''Starting %s'' st) st1"
    using frame_CamstimSyncShared_is_started[of "logger Debug ''Starting %s'' st" E] assms by simp
  then have "sent st1 = sent st \<and> latest_start st1 = latest_start st"
    by (simp add: frame_def logger_def)
  then show ?thesis using assms by (simp add: CamstimSyncShared_start_def andthen_def)
qed


lemma frame_logger: "frame st (logger l m st)" by (simp add: frame_def logger_def)

lemma frameD:
  "frame st st' \<Longrightarrow> now st' = now st \<and> sent st' = sent st \<and> latest_start st' = latest_start st
     \<and> data_files st' = data_files st"
  by (simp add: frame_def)

lemma CamstimSyncShared_start_not_ready:
  assumes s: "CamstimSyncShared_is_started E (logger Debug ''Starting %s'' st) = (Inr False, st1)"
    and r: "CamstimSyncShared_is_ready_to_start E st1 = (Inr False, st2)"
  shows "(\<exists>e st'. CamstimSyncShared_start E st = (Inl e, st')
            \<and> sent st' = sent st \<and> latest_start st' = latest_start st)
       \<and> (Proxy_get_state E st2 = (Inr s3, st3)
            \<and> Proxy_get_state E (logger Error ''%s not ready to start: %s'' st3) = (Inr s4, st4)
          \<longrightarrow> CamstimSyncShared_start E st = (Inl AssertionError, st4))"
proof -
  let ?m = "''%s not ready to start: %s''"
  have d: "CamstimSyncShared_start E st =
             andthen (Proxy_get_state E st2) (\<lambda>s st3.
             andthen (Proxy_get_state E (logger Error ?m st3)) (\<lambda>s st4.
               (Inl AssertionError, st4)))"
    using s r by (simp add: CamstimSyncShared_start_def andthen_def)
  have "frame (logger Debug ''Starting %s'' st) st1"
    using frame_CamstimSyncShared_is_started[of "logger Debug ''Starting %s'' st" E] s by simp
  then have f1: "frame st st1" by (rule frame_trans[OF frame_logger])
  have f2: "frame st1 st2" using frame_CamstimSyncShared_is_ready_to_start[of st1 E] r by simp
  have f02: "frame st st2" by (rule frame_trans[OF f1 f2])
  obtain x a where g1: "Proxy_get_state E st2 = (x, a)" by (cases "Proxy_get_state E st2")
  have fa: "frame st2 a" using frame_Proxy_get_state[of st2 E] g1 by simp
  obtain y b where g2: "Proxy_get_state E (logger Error ?m a) = (y, b)"
    by (cases "Proxy_get_state E (logger Error ?m a)")
  have "frame (logger Error ?m a) b"
    using frame_Proxy_get_state[of "logger Error ?m a" E] g2 by simp
  then have fb: "frame a b" by (rule frame_trans[OF frame_logger])
  have fr0a: "frame st a" by (rule frame_trans[OF f02 fa])
  have fr0b: "frame st b" by (rule frame_trans[OF fr0a fb])
  have 1: "\<exists>e st'. CamstimSyncShared_start E st = (Inl e, st')
            \<and> sent st' = sent st \<and> latest_start st' = latest_start st"
  proof (cases x)
    case (Inl e)
    then have "CamstimSyncShared_start E st = (Inl e, a)" using d g1 by (simp add: andthen_def)
    then show ?thesis using frameD[OF fr0a] by simp
  next
    case (Inr s)
    show ?thesis
    proof (cases y)
      case (Inl e)
      then have "CamstimSyncShared_start E st = (Inl e, b)"
        using d g1 g2 Inr by (simp add: andthen_def)
      then show ?thesis using frameD[OF fr0b] by simp
    next
      case (Inr s')
      then have "CamstimSyncShared_start E st = (Inl AssertionError, b)"
        using d g1 g2 \<open>x = Inr s\<close> by (simp add: andthen_def)
      then show ?thesis using frameD[OF fr0b] by simp
    qed
  qed
  have 2: "Proxy_get_state E st2 = (Inr s3, st3)
            \<and> Proxy_get_state E (logger Error ?m st3) = (Inr s4, st4)
          \<longrightarrow> CamstimSyncShared_start E st = (Inl AssertionError, st4)"
    using d by (simp add: andthen_def)
  show ?thesis using 1 2 by blast
qed

lemma CamstimSyncShared_start_ready:
  assumes s: "CamstimSyncShared_is_started E (logger Debug ''Starting %s'' st) = (Inr False, st1)"
    and r: "CamstimSyncShared_is_ready_to_start E st1 = (Inr True, st2)"
  shows "CamstimSyncShared_start E st = command E Start (st2\<lparr>latest_start := Some (now st)\<rparr>)
       \<and> latest_start (snd (CamstimSyncShared_start E st)) = Some (now st)
       \<and> (proxy st2 \<longrightarrow> sent (snd (CamstimSyncShared_start E st)) = sent st @ [Start])"
proof -
  have "frame (logger Debug ''Starting %s'' st) st1"
    using frame_CamstimSyncShared_is_started[of "logger Debug ''Starting %s'' st" E] s by simp
  then have f1: "frame st st1" by (rule frame_trans[OF frame_logger])
  have f2: "frame st1 st2" using frame_CamstimSyncShared_is_ready_to_start[of st1 E] r by simp
  have n: "now st2 = now st" "sent st2 = sent st"
    using frameD[OF frame_trans[OF f1 f2]] by simp_all
  have d: "CamstimSyncShared_start E st = command E Start (st2\<lparr>latest_start := Some (now st)\<rparr>)"
    using s r n by (simp add: CamstimSyncShared_start_def andthen_def)
  have l: "latest_start (snd (CamstimSyncShared_start E st)) = Some (now st)"
    unfolding d using command_frame[of E Start "st2\<lparr>latest_start := Some (now st)\<rparr>"] by simp
  have p: "proxy st2 \<longrightarrow> sent (snd (CamstimSyncShared_start E st)) = sent st @ [Start]"
    unfolding d using n by (simp add: command_connected)
  show ?thesis using d l p by blast
qed


subsection \<open>start: ImageMVR\<close>

lemma frame_ImageMVR_is_started: "frame st (snd (ImageMVR_is_started E st))"
  unfolding ImageMVR_is_started_def
  by (intro frame_andthen frame_get_proxy) (simp add: frame_def)

lemma frame_ImageMVR_is_ready_to_start:
  "frame st (snd (MVR_is_ready_to_start ImageMVR_is_started E st))"
  by (rule frame_MVR_is_ready_to_start) (rule frame_ImageMVR_is_started)

lemma ImageMVR_start_not_ready:
  assumes r: "MVR_is_ready_to_start ImageMVR_is_started E st = (Inr False, st1)"
  shows "(\<exists>e st'. ImageMVR_start E st = (Inl e, st')
            \<and> sent st' = sent st \<and> latest_start st' = latest_start st)
       \<and> (MVR_get_state E st1 = (Inr s2, st2)
            \<and> MVR_get_state E (logger Error ''%s not ready to start: %s'' st2) = (Inr s3, st3)
          \<longrightarrow> ImageMVR_start E st = (Inl AssertionError, st3))"
proof -
  let ?m = "''%s not ready to start: %s''"
  have d: "ImageMVR_start E st =
             andthen (MVR_get_state E st1) (\<lambda>s st2.
             andthen (MVR_get_state E (logger Error ?m st2)) (\<lambda>s st3.
               (Inl AssertionError, st3)))"
    using r by (simp add: ImageMVR_start_def andthen_def)
  have f1: "frame st st1" using frame_ImageMVR_is_ready_to_start[of st E] r by simp
  obtain x a where g1: "MVR_get_state E st1 = (x, a)" by (cases "MVR_get_state E st1")
  have fa: "frame st1 a" using frame_MVR_get_state[of st1 E] g1 by simp
  obtain y b where g2: "MVR_get_state E (logger Error ?m a) = (y, b)"
    by (cases "MVR_get_state E (logger Error ?m a)")
  have "frame (logger Error ?m a) b"
    using frame_MVR_get_state[of "logger Error ?m a" E] g2 by simp
  then have fb: "frame a b" by (rule frame_trans[OF frame_logger])
  have fr0a: "frame st a" by (rule frame_trans[OF f1 fa])
  have fr0b: "frame st b" by (rule frame_trans[OF fr0a fb])
  have 1: "\<exists>e st'. ImageMVR_start E st = (Inl e, st')
            \<and> sent st' = sent st \<and> latest_start st' = latest_start st"
  proof (cases x)
    case (Inl e)
    then have "ImageMVR_start E st = (Inl e, a)" using d g1 by (simp add: andthen_def)
    then show ?thesis using frameD[OF fr0a] by simp
  next
    case (Inr s)
    show ?thesis
    proof (cases y)
      case (Inl e)
      then have "ImageMVR_start E st = (Inl e, b)"
        using d g1 g2 Inr by (simp add: andthen_def)
      then show ?thesis using frameD[OF fr0b] by simp
    next
      case (Inr s')
      then have "ImageMVR_start E st = (Inl AssertionError, b)"
        using d g1 g2 \<open>x = Inr s\<close> by (simp add: andthen_def)
      then show ?thesis using frameD[OF fr0b] by simp
    qed
  qed
  have 2: "MVR_get_state E st1 = (Inr s2, st2)
            \<and> MVR_get_state E (logger Error ?m st2) = (Inr s3, st3)
          \<longrightarrow> ImageMVR_start E st = (Inl AssertionError, st3)"
    using d by (simp add: andthen_def)
  show ?thesis using 1 2 by blast
qed

lemma ImageMVR_start_ready:
  assumes r: "MVR_is_ready_to_start ImageMVR_is_started E st = (Inr True, st1)"
  shows "ImageMVR_start E st = command E Take_snapshot (st1\<lparr>latest_start := Some (now st)\<rparr>)
       \<and> latest_start (snd (ImageMVR_start E st)) = Some (now st)
       \<and> (proxy st1 \<longrightarrow> sent (snd (ImageMVR_start E st)) = sent st @ [Take_snapshot])"
proof -
  have f1: "frame st st1" using frame_ImageMVR_is_ready_to_start[of st E] r by simp
  have n: "now st1 = now st" "sent st1 = sent st" using frameD[OF f1] by simp_all
  have d: "ImageMVR_start E st = command E Take_snapshot (st1\<lparr>latest_start := Some (now st)\<rparr>)"
    using r n by (simp add: ImageMVR_start_def andthen_def)
  have l: "latest_start (snd (ImageMVR_start E st)) = Some (now st)"
    unfolding d using command_frame[of E Take_snapshot "st1\<lparr>latest_start := Some (now st)\<rparr>"] by simp
  have p: "proxy st1 \<longrightarrow> sent (snd (ImageMVR_start E st)) = sent st @ [Take_snapshot]"
    unfolding d using n by (simp add: command_connected)
  show ?thesis using d l p by blast
qed

subsection \<open>The example devices\<close>

lemma initialized_simps:
  "proxy initialized" "tick initialized = 0" "sent initialized = []" "now initialized = 1000"
  "latest_start initialized = Some 0" "logged initialized = []" "data_files initialized = None"
  "data_root initialized = Some ''//sync/data''"
  by (simp_all add: initialized_def configured_def class_defaults_def)

lemma logger_simps:
  "proxy (logger l m st) = proxy st" "tick (logger l m st) = tick st"
  "sent (logger l m st) = sent st" "now (logger l m st) = now st"
  "latest_start (logger l m st) = latest_start st"
  "data_files (logger l m st) = data_files st"
  "logged (logger l m st) = logged st @ [(l, m)]"
  by (simp_all add: logger_def)

lemma Proxy_get_state_processing_Sync:
  "proxy st \<Longrightarrow> Proxy_get_state processing_Sync st
     = (Inr (Tuple [''BUSY'', ''PROCESSING'']), st\<lparr>tick := tick st + 1\<rparr>)"
  by (simp add: Proxy_get_state_connected processing_Sync_def example_Sync_def)

lemma command_example_Sync:
  "proxy st \<Longrightarrow> command example_Sync c st
     = (Inr (), st\<lparr>tick := tick st + 1, sent := sent st @ [c]\<rparr>)"
  by (simp add: command_connected example_Sync_def)

subsection \<open>Probes of MVR\<close>

lemma MVR_get_camera_status_connected:
  "proxy st \<Longrightarrow> MVR_get_camera_status E st = (mvr_camera_status E (tick st), st\<lparr>tick := tick st + 1\<rparr>)"
  by (simp add: MVR_get_camera_status_def get_proxy_connected andthen_def)

lemma MVR_is_connected_ok:
  assumes "proxy st" "is_online E (tick st)" "mvr_connected E (tick st + 1)"
    "mvr_camera_status E (tick st + 2) = Inr cams"
  shows "MVR_is_connected E st = (Inr True, st\<lparr>tick := tick st + 3\<rparr>)"
  using assms
  by (simp add: MVR_is_connected_def get_proxy_connected andthen_def MVR_get_camera_status_connected)

lemma MVR_get_state_ok:
  assumes "proxy st" "is_online E (tick st)" "mvr_connected E (tick st + 1)"
    "mvr_camera_status E (tick st + 2) = Inr cams0"
    "mvr_camera_status E (tick st + 3) = Inr cams" "cams \<noteq> []"
  shows "MVR_get_state E st =
           (Inr (if list_ex (\<lambda>c. \<not> is_open c) cams then Tuple [[], ''CAMERA_CLOSED'']
                 else if list_ex (\<lambda>c. \<not> is_streaming c) cams then Tuple [[], ''CAMERA_NOT_STREAMING'']
                 else if filter is_recording cams \<noteq> [] then Tuple [''BUSY'', ''RECORDING'']
                 else Tuple [''READY'', []]),
            st\<lparr>tick := tick st + 4\<rparr>)"
proof -
  have c: "MVR_is_connected E st = (Inr True, st\<lparr>tick := tick st + 3\<rparr>)"
    using assms by (intro MVR_is_connected_ok) simp_all
  have s: "MVR_get_camera_status E (st\<lparr>tick := tick st + 3\<rparr>) = (Inr cams, st\<lparr>tick := tick st + 4\<rparr>)"
    using assms by (simp add: MVR_get_camera_status_connected)
  show ?thesis
    using assms(6) unfolding MVR_get_state_def c
    by (simp add: andthen_def s MVR_get_cameras_recording_def)
qed

lemma VideoMVR_is_started_recording:
  "proxy st \<Longrightarrow> VideoMVR_is_started recording_MVR st = (Inr True, st\<lparr>tick := tick st + 4\<rparr>)"
proof -
  assume p: "proxy st"
  let ?c = "[\<lparr>is_open = True, is_streaming = True, is_recording = True\<rparr>]"
  have "MVR_get_state recording_MVR st = (Inr (Tuple [''BUSY'', ''RECORDING'']), st\<lparr>tick := tick st + 4\<rparr>)"
    using MVR_get_state_ok[of st recording_MVR ?c ?c] p
    by (simp add: recording_MVR_def example_Sync_def)
  then show ?thesis
    by (simp add: VideoMVR_is_started_def andthen_def all_started_def recording_MVR_def example_Sync_def)
qed

lemma MVR_get_state_closed:
  "proxy st \<Longrightarrow> MVR_get_state closed_MVR st = (Inr (Tuple [[], ''CAMERA_CLOSED'']), st\<lparr>tick := tick st + 4\<rparr>)"
proof -
  assume p: "proxy st"
  let ?c = "[\<lparr>is_open = False, is_streaming = False, is_recording = False\<rparr>]"
  show ?thesis
    using MVR_get_state_ok[of st closed_MVR ?c ?c] p
    by (simp add: closed_MVR_def example_Sync_def)
qed

lemma ImageMVR_is_started_connected:
  "proxy st \<Longrightarrow> ImageMVR_is_started E st
     = (Inr (snapshot_converted (mvr_read E (tick st))), st\<lparr>tick := tick st + 1\<rparr>)"
  by (simp add: ImageMVR_is_started_def get_proxy_connected andthen_def)

lemma ImageMVR_ready_closed:
  "proxy st \<Longrightarrow> MVR_is_ready_to_start ImageMVR_is_started closed_MVR st
     = (Inr False, st\<lparr>tick := tick st + 2\<rparr>)"
  by (simp add: MVR_is_ready_to_start_def ImageMVR_is_started_connected andthen_def
      MVR_get_camera_status_connected)
     (simp add: closed_MVR_def example_Sync_def)

lemma ImageMVR_ready_idle:
  "proxy st \<Longrightarrow> MVR_is_ready_to_start ImageMVR_is_started idle_MVR st
     = (Inr True, st\<lparr>tick := tick st + 2\<rparr>)"
  by (simp add: MVR_is_ready_to_start_def ImageMVR_is_started_connected andthen_def
      MVR_get_camera_status_connected)
     (simp add: idle_MVR_def example_Sync_def)

lemma command_idle_MVR:
  "proxy st \<Longrightarrow> command idle_MVR c st
     = (Inr (), st\<lparr>tick := tick st + 1, sent := sent st @ [c]\<rparr>)"
  by (simp add: command_connected idle_MVR_def example_Sync_def)

lemma command_recording_MVR:
  "proxy st \<Longrightarrow> command recording_MVR c st
     = (Inr (), st\<lparr>tick := tick st + 1, sent := sent st @ [c]\<rparr>)"
  by (simp add: command_connected recording_MVR_def example_Sync_def)

lemma command_processing_Camstim:
  "proxy st \<Longrightarrow> command processing_Camstim c st
     = (Inr (), st\<lparr>tick := tick st + 1, sent := sent st @ [c]\<rparr>)"
  by (simp add: command_connected processing_Camstim_def example_Sync_def)

lemma is_started_processing_Camstim:
  "proxy st \<Longrightarrow> CamstimSyncShared_is_started processing_Camstim st = (Inr False, st\<lparr>tick := tick st + 1\<rparr>)"
  by (simp add: CamstimSyncShared_is_started_def Proxy_get_state_connected andthen_def
      all_started_def processing_Camstim_def example_Sync_def)

lemma is_ready_processing_Camstim:
  "proxy st \<Longrightarrow> CamstimSyncShared_is_ready_to_start processing_Camstim st = (Inr False, st\<lparr>tick := tick st + 2\<rparr>)"
  by (simp add: CamstimSyncShared_is_ready_to_start_def is_started_processing_Camstim
      Proxy_get_state_connected andthen_def) (simp add: processing_Camstim_def example_Sync_def)

subsection \<open>start requires readiness\<close>

text \<open>
  C4 (as amended). \<open>CamstimSyncShared.start\<close> and \<open>ImageMVR.start\<close> check readiness
  first. When the class is neither started nor ready (for \<open>ImageMVR\<close>: not ready), the
  call raises, commands nothing and leaves \<open>latest_start\<close> alone; the exception is
  \<open>AssertionError\<close> when the two state queries made for the log record and the message
  succeed (otherwise it is the error of the query). When the class is ready, the call is
  the device command issued on a state whose \<open>latest_start\<close> is already the current time.
\<close>

theorem start_requires_ready:
  "(CamstimSyncShared_is_started E (logger Debug ''Starting %s'' st) = (Inr False, st1)
      \<and> CamstimSyncShared_is_ready_to_start E st1 = (Inr False, st2)
    \<longrightarrow> (\<exists>e st'. CamstimSyncShared_start E st = (Inl e, st')
            \<and> sent st' = sent st \<and> latest_start st' = latest_start st)
        \<and> (Proxy_get_state E st2 = (Inr s3, st3)
            \<and> Proxy_get_state E (logger Error ''%s not ready to start: %s'' st3) = (Inr s4, st4)
          \<longrightarrow> CamstimSyncShared_start E st = (Inl AssertionError, st4)))
   \<and> (CamstimSyncShared_is_started E (logger Debug ''Starting %s'' st) = (Inr False, st1)
      \<and> CamstimSyncShared_is_ready_to_start E st1 = (Inr True, st2)
    \<longrightarrow> CamstimSyncShared_start E st = command E Start (st2\<lparr>latest_start := Some (now st)\<rparr>)
        \<and> latest_start (snd (CamstimSyncShared_start E st)) = Some (now st)
        \<and> (proxy st2 \<longrightarrow> sent (snd (CamstimSyncShared_start E st)) = sent st @ [Start]))
   \<and> (MVR_is_ready_to_start ImageMVR_is_started E st = (Inr False, st1)
    \<longrightarrow> (\<exists>e st'. ImageMVR_start E st = (Inl e, st')
            \<and> sent st' = sent st \<and> latest_start st' = latest_start st)
        \<and> (MVR_get_state E st1 = (Inr s3, st3)
            \<and> MVR_get_state E (logger Error ''%s not ready to start: %s'' st3) = (Inr s4, st4)
          \<longrightarrow> ImageMVR_start E st = (Inl AssertionError, st4)))
   \<and> (MVR_is_ready_to_start ImageMVR_is_started E st = (Inr True, st1)
    \<longrightarrow> ImageMVR_start E st = command E Take_snapshot (st1\<lparr>latest_start := Some (now st)\<rparr>)
        \<and> latest_start (snd (ImageMVR_start E st)) = Some (now st)
        \<and> (proxy st1 \<longrightarrow> sent (snd (ImageMVR_start E st)) = sent st @ [Take_snapshot]))"
  using CamstimSyncShared_start_not_ready[of E st st1 st2 s3 st3 s4 st4]
        CamstimSyncShared_start_ready[of E st st1 st2]
        ImageMVR_start_not_ready[of E st st1 s3 st3 s4 st4]
        ImageMVR_start_ready[of E st st1]
  by blast

theorem start_requires_ready_witness:
  "fst (CamstimSyncShared_start processing_Sync initialized) = Inl AssertionError
   \<and> sent (snd (CamstimSyncShared_start processing_Sync initialized)) = sent initialized
   \<and> latest_start (snd (CamstimSyncShared_start processing_Sync initialized)) = latest_start initialized
   \<and> fst (CamstimSyncShared_start example_Sync initialized) = Inr ()
   \<and> sent (snd (CamstimSyncShared_start example_Sync initialized)) = [Start]
   \<and> latest_start (snd (CamstimSyncShared_start example_Sync initialized)) = Some (now initialized)
   \<and> fst (ImageMVR_start closed_MVR initialized) = Inl AssertionError
   \<and> sent (snd (ImageMVR_start closed_MVR initialized)) = sent initialized
   \<and> fst (ImageMVR_start idle_MVR initialized) = Inr ()
   \<and> sent (snd (ImageMVR_start idle_MVR initialized)) = [Take_snapshot]
   \<and> latest_start (snd (ImageMVR_start idle_MVR initialized)) = Some (now initialized)"
proof -
  let ?d = "logger Debug ''Starting %s'' initialized"
  let ?m = "''%s not ready to start: %s''"
  let ?busy = "Tuple [''BUSY'', ''PROCESSING'']"
  let ?closed = "Tuple [[], ''CAMERA_CLOSED'']"
  \<comment> \<open>a Sync that is busy without recording\<close>
  let ?a1 = "?d\<lparr>tick := tick ?d + 1\<rparr>"
  let ?a2 = "?a1\<lparr>tick := tick ?a1 + 2\<rparr>"
  let ?a3 = "?a2\<lparr>tick := tick ?a2 + 1\<rparr>"
  let ?a3' = "logger Error ?m ?a3"
  let ?a4 = "?a3'\<lparr>tick := tick ?a3' + 1\<rparr>"
  have a1: "CamstimSyncShared_is_started processing_Sync ?d = (Inr False, ?a1)"
    by (rule is_started_processing_Sync) (simp add: logger_simps initialized_simps)
  have a2: "CamstimSyncShared_is_ready_to_start processing_Sync ?a1 = (Inr False, ?a2)"
    by (rule is_ready_processing_Sync) (simp add: logger_simps initialized_simps)
  have a3: "Proxy_get_state processing_Sync ?a2 = (Inr ?busy, ?a3)"
    by (rule Proxy_get_state_processing_Sync) (simp add: logger_simps initialized_simps)
  have a4: "Proxy_get_state processing_Sync ?a3' = (Inr ?busy, ?a4)"
    by (rule Proxy_get_state_processing_Sync) (simp add: logger_simps initialized_simps)
  have A1: "CamstimSyncShared_start processing_Sync initialized = (Inl AssertionError, ?a4)"
    by (rule start_requires_ready
              [of processing_Sync initialized ?a1 ?a2 ?busy ?a3 ?busy ?a4,
               THEN conjunct1, THEN mp, OF conjI[OF a1 a2],
               THEN conjunct2, THEN mp, OF conjI[OF a3 a4]])
  have A2: "sent ?a4 = sent initialized" "latest_start ?a4 = latest_start initialized"
    by (simp_all add: logger_simps)
  \<comment> \<open>a Sync that is ready\<close>
  have b1: "CamstimSyncShared_is_started example_Sync ?d = (Inr False, ?a1)"
    by (rule is_started_example_Sync) (simp add: logger_simps initialized_simps)
  have b2: "CamstimSyncShared_is_ready_to_start example_Sync ?a1 = (Inr True, ?a2)"
    by (rule is_ready_example_Sync) (simp add: logger_simps initialized_simps)
  have b3: "proxy ?a2" by (simp add: logger_simps initialized_simps)
  note B = start_requires_ready
             [of example_Sync initialized ?a1 ?a2,
              THEN conjunct2, THEN conjunct1, THEN mp, OF conjI[OF b1 b2]]
  have B1: "fst (CamstimSyncShared_start example_Sync initialized) = Inr ()"
    unfolding B[THEN conjunct1] using b3 by (simp add: command_example_Sync)
  have B2: "latest_start (snd (CamstimSyncShared_start example_Sync initialized))
              = Some (now initialized)"
    by (rule B[THEN conjunct2, THEN conjunct1])
  have B3: "sent (snd (CamstimSyncShared_start example_Sync initialized)) = [Start]"
    using B[THEN conjunct2, THEN conjunct2, THEN mp, OF b3] by (simp add: initialized_simps)
  \<comment> \<open>MVR with its camera closed\<close>
  let ?c1 = "initialized\<lparr>tick := tick initialized + 2\<rparr>"
  let ?c2 = "?c1\<lparr>tick := tick ?c1 + 4\<rparr>"
  let ?c2' = "logger Error ?m ?c2"
  let ?c3 = "?c2'\<lparr>tick := tick ?c2' + 4\<rparr>"
  have c1: "MVR_is_ready_to_start ImageMVR_is_started closed_MVR initialized = (Inr False, ?c1)"
    by (rule ImageMVR_ready_closed) (simp add: initialized_simps)
  have c2: "MVR_get_state closed_MVR ?c1 = (Inr ?closed, ?c2)"
    by (rule MVR_get_state_closed) (simp add: initialized_simps)
  have c3: "MVR_get_state closed_MVR ?c2' = (Inr ?closed, ?c3)"
    by (rule MVR_get_state_closed) (simp add: initialized_simps logger_simps)
  have C1: "ImageMVR_start closed_MVR initialized = (Inl AssertionError, ?c3)"
    by (rule start_requires_ready
              [of closed_MVR initialized ?c1 _ ?closed ?c2 ?closed ?c3,
               THEN conjunct2, THEN conjunct2, THEN conjunct1, THEN mp, OF c1,
               THEN conjunct2, THEN mp, OF conjI[OF c2 c3]])
  have C2: "sent ?c3 = sent initialized" by (simp add: logger_simps)
  \<comment> \<open>MVR with its camera idle\<close>
  have d1: "MVR_is_ready_to_start ImageMVR_is_started idle_MVR initialized = (Inr True, ?c1)"
    by (rule ImageMVR_ready_idle) (simp add: initialized_simps)
  have d2: "proxy ?c1" by (simp add: initialized_simps)
  note D = start_requires_ready
             [of idle_MVR initialized ?c1,
              THEN conjunct2, THEN conjunct2, THEN conjunct2, THEN mp, OF d1]
  have D1: "fst (ImageMVR_start idle_MVR initialized) = Inr ()"
    unfolding D[THEN conjunct1] using d2 by (simp add: command_idle_MVR)
  have D2: "latest_start (snd (ImageMVR_start idle_MVR initialized)) = Some (now initialized)"
    by (rule D[THEN conjunct2, THEN conjunct1])
  have D3: "sent (snd (ImageMVR_start idle_MVR initialized)) = [Take_snapshot]"
    using D[THEN conjunct2, THEN conjunct2, THEN mp, OF d2] by (simp add: initialized_simps)
  show ?thesis
    unfolding A1 C1 fst_conv snd_conv
    using A2 B1 B2 B3 C2 D1 D2 D3 by (intro conjI) (simp_all only:)
qed

text \<open>
  Against C4 as stated: a \<open>Camstim\<close> that is neither started nor ready. \<open>ScriptCamstim.start\<close>
  makes no check: it returns normally, has sent \<^verbatim>\<open>start_script\<close> and has moved
  \<open>latest_start\<close>.
\<close>

theorem ScriptCamstim_start_unchecked:
  "fst (CamstimSyncShared_is_started processing_Camstim initialized) = Inr False
   \<and> fst (CamstimSyncShared_is_ready_to_start processing_Camstim initialized) = Inr False
   \<and> fst (ScriptCamstim_start processing_Camstim initialized) = Inr ()
   \<and> sent (snd (ScriptCamstim_start processing_Camstim initialized)) = [Start_script]
   \<and> latest_start initialized = Some 0
   \<and> latest_start (snd (ScriptCamstim_start processing_Camstim initialized)) = Some 1000"
  by (simp add: is_started_processing_Camstim is_ready_processing_Camstim ScriptCamstim_start_def
      command_processing_Camstim initialized_simps)

subsection \<open>start when already started\<close>

text \<open>
  C3 (as amended). When \<open>is_started\<close> reports true, \<open>CamstimSyncShared.start\<close> (the
  \<open>start\<close> of \<open>Sync\<close>, \<open>Camstim\<close>, \<open>Phidget\<close>, \<open>MouseDirector\<close> and \<open>Cam3d\<close>) returns
  normally after logging a warning: nothing is sent to the device, and \<open>latest_start\<close>,
  the clock and \<open>data_files\<close> are as before.
\<close>

theorem start_when_started_is_noop:
  assumes "CamstimSyncShared_is_started E (logger Debug ''Starting %s'' st) = (Inr True, st1)"
  shows "CamstimSyncShared_start E st =
           (Inr (), logger Warning ''%s already started - should be stopped manually'' st1)
         \<and> sent (snd (CamstimSyncShared_start E st)) = sent st
         \<and> latest_start (snd (CamstimSyncShared_start E st)) = latest_start st
         \<and> now (snd (CamstimSyncShared_start E st)) = now st
         \<and> data_files (snd (CamstimSyncShared_start E st)) = data_files st
         \<and> last (logged (snd (CamstimSyncShared_start E st)))
             = (Warning, ''%s already started - should be stopped manually'')"
proof -
  have "frame (logger Debug ''Starting %s'' st) st1"
    using frame_CamstimSyncShared_is_started[of "logger Debug ''Starting %s'' st" E] assms by simp
  then have f: "frame st st1" by (rule frame_trans[OF frame_logger])
  have d: "CamstimSyncShared_start E st =
           (Inr (), logger Warning ''%s already started - should be stopped manually'' st1)"
    using assms by (simp add: CamstimSyncShared_start_def andthen_def)
  show ?thesis unfolding d using frameD[OF f] by (simp add: logger_simps)
qed

theorem start_when_started_is_noop_witness:
  "fst (CamstimSyncShared_is_started recording_Sync (logger Debug ''Starting %s'' initialized))
     = Inr True
   \<and> fst (CamstimSyncShared_start recording_Sync initialized) = Inr ()
   \<and> sent (snd (CamstimSyncShared_start recording_Sync initialized)) = []
   \<and> latest_start (snd (CamstimSyncShared_start recording_Sync initialized)) = Some 0"
proof -
  let ?d = "logger Debug ''Starting %s'' initialized"
  have s: "CamstimSyncShared_is_started recording_Sync ?d = (Inr True, ?d\<lparr>tick := tick ?d + 1\<rparr>)"
    by (rule is_started_recording_Sync) (simp add: logger_simps initialized_simps)
  note t = start_when_started_is_noop[OF s]
  have 1: "fst (CamstimSyncShared_start recording_Sync initialized) = Inr ()"
    unfolding t[THEN conjunct1] by simp
  have 2: "sent (snd (CamstimSyncShared_start recording_Sync initialized)) = []"
    using t[THEN conjunct2, THEN conjunct1] by (simp add: initialized_simps)
  have 3: "latest_start (snd (CamstimSyncShared_start recording_Sync initialized)) = Some 0"
    using t[THEN conjunct2, THEN conjunct2, THEN conjunct1] by (simp add: initialized_simps)
  show ?thesis unfolding s fst_conv using 1 2 3 by (intro conjI) (simp_all only:)
qed

text \<open>
  Against C3 as stated: \<open>VideoMVR.start\<close> on a class that reports it is started (MVR is
  recording). The call sends \<^verbatim>\<open>start_record\<close> again and moves \<open>latest_start\<close>.
\<close>

theorem VideoMVR_start_when_started:
  "fst (VideoMVR_start recording_MVR initialized) = Inr ()
   \<and> fst (VideoMVR_is_started recording_MVR (snd (VideoMVR_start recording_MVR initialized)))
       = Inr True
   \<and> sent (snd (VideoMVR_start recording_MVR
                  (sleep 5 (snd (VideoMVR_start recording_MVR initialized)))))
       = [Start_record, Start_record]
   \<and> latest_start (snd (VideoMVR_start recording_MVR initialized)) = Some 1000
   \<and> latest_start (snd (VideoMVR_start recording_MVR
                  (sleep 5 (snd (VideoMVR_start recording_MVR initialized)))))
       = Some 1005"
  by (simp add: VideoMVR_start_def command_recording_MVR initialized_simps
      VideoMVR_is_started_recording sleep_def)

subsection \<open>stop_on_error\<close>








subsection \<open>is_file_growing on an empty file\<close>

text \<open>
  C10. On a file of size \<open>0\<close>, \<open>is_file_growing\<close> raises \<open>ValueError\<close> (from
  \<^verbatim>\<open>math.log10(0)\<close>) before it sleeps or compares sizes; so \<open>Sync.verify\<close>, on a started
  class whose latest data file is empty, ends with \<open>ValueError\<close> and not with the
  \<open>AssertionError\<close> of its docstring.
\<close>

theorem is_file_growing_empty_file:
  "(path_size E (now st) p = Inr 0 \<longrightarrow> is_file_growing E st p = (Inl ValueError, st))
   \<and> (CamstimSyncShared_verify E st = (Inr (), st1) \<and> data_root st1 \<noteq> None
        \<and> latest E st1 = (Inr f, st2) \<and> path_size E (now st2) (fname f) = Inr 0
      \<longrightarrow> Sync_verify E st = (Inl ValueError, st2))"
  by (auto simp: is_file_growing_def Sync_verify_def andthen_def)

lemma ensure_config_initialized:
  "ensure_config empty_file_Sync (initialized\<lparr>tick := n\<rparr>) = (Inr (), initialized\<lparr>tick := n\<rparr>)"
  by (simp add: ensure_config_defs empty_file_Sync_def recording_Sync_def example_Sync_def
      initialized_def configured_def class_defaults_def)

lemma latest_empty_file:
  "latest empty_file_Sync (initialized\<lparr>tick := n\<rparr>) = (Inr file_empty, initialized\<lparr>tick := n\<rparr>)"
proof -
  have g: "get_files_created_between empty_file_Sync (initialized\<lparr>tick := n\<rparr>)
             (joinpath ''//sync/data'' []) (default_glob empty_file_Sync None) (Num 0) None
           = [file_empty]"
    by (simp add: get_files_created_between_def empty_file_Sync_def recording_Sync_def
        example_Sync_def window_end_def py_int_def file_empty_def initialized_simps)
  have "get_latest_data empty_file_Sync (initialized\<lparr>tick := n\<rparr>) None []
          = (Inr (Some [file_empty]), initialized\<lparr>tick := n\<rparr>)"
    using g by (simp add: get_latest_data_def ensure_config_initialized andthen_def initialized_simps)
  then show ?thesis by (simp add: latest_def andthen_def)
qed

theorem is_file_growing_empty_file_witness:
  "CamstimSyncShared_verify empty_file_Sync initialized = (Inr (), initialized\<lparr>tick := 1\<rparr>)
   \<and> data_root (initialized\<lparr>tick := 1\<rparr>) \<noteq> None
   \<and> latest empty_file_Sync (initialized\<lparr>tick := 1\<rparr>) = (Inr file_empty, initialized\<lparr>tick := 1\<rparr>)
   \<and> st_size file_empty = 0
   \<and> path_size empty_file_Sync (now (initialized\<lparr>tick := 1\<rparr>)) (fname file_empty) = Inr 0
   \<and> is_file_growing empty_file_Sync (initialized\<lparr>tick := 1\<rparr>) (fname file_empty)
       = (Inl ValueError, initialized\<lparr>tick := 1\<rparr>)
   \<and> Sync_verify empty_file_Sync initialized = (Inl ValueError, initialized\<lparr>tick := 1\<rparr>)"
proof -
  let ?E = empty_file_Sync
  let ?s = "initialized\<lparr>tick := 1\<rparr>"
  have "CamstimSyncShared_is_started ?E initialized = (Inr True, initialized\<lparr>tick := tick initialized + 1\<rparr>)"
    by (simp add: CamstimSyncShared_is_started_def Proxy_get_state_connected andthen_def
      all_started_def empty_file_Sync_def recording_Sync_def example_Sync_def initialized_simps)
  then have v: "CamstimSyncShared_verify ?E initialized = (Inr (), ?s)"
    by (simp add: CamstimSyncShared_verify_def andthen_def initialized_simps)
  have d: "data_root ?s \<noteq> None" by (simp add: initialized_simps)
  have z: "st_size file_empty = 0" by (simp add: file_empty_def)
  have p: "path_size ?E (now ?s) (fname file_empty) = Inr 0"
    by (simp add: empty_file_Sync_def)
  have g: "is_file_growing ?E ?s (fname file_empty) = (Inl ValueError, ?s)"
    by (rule is_file_growing_empty_file[of ?E ?s "fname file_empty",
              THEN conjunct1, THEN mp, OF p])
  have s: "Sync_verify ?E initialized = (Inl ValueError, ?s)"
    by (rule is_file_growing_empty_file[of ?E initialized _ ?s file_empty ?s,
              THEN conjunct2, THEN mp, OF conjI[OF v conjI[OF d conjI[OF latest_empty_file p]]]])
  show ?thesis using v d latest_empty_file z p g s by (intro conjI)
qed

subsection \<open>finalize: the bounded wait of VideoMVR\<close>













subsection \<open>finalize: the unbounded wait of Sync and Camstim\<close>





end
